theory Spec2Isabelle
  imports Main
begin

section \<open>Values shared by the storage client and the actions\<close>

text \<open>
  A Node \<open>Buffer\<close> and a JavaScript string are both modelled as a list of bytes
  (\<open>string\<close> is \<open>char list\<close>, and a \<open>char\<close> is a byte); a JavaScript string is
  read as its UTF-8 bytes. A thrown \<open>Error\<close> is the value \<open>Error msg\<close> with the
  message the source builds; a function that can throw returns \<open>error + 'a\<close>.
\<close>

type_synonym bytes = string

datatype error = Error string

text \<open>
  A field typed \<open>string | null\<close> or \<open>string | undefined\<close> is a \<open>string option\<close>.
  JavaScript truthiness on such a field: \<open>null\<close>, \<open>undefined\<close> and the empty string
  are falsy.
\<close>

definition truthy :: "string option \<Rightarrow> bool" where
  "truthy v = (case v of None \<Rightarrow> False | Some s \<Rightarrow> s \<noteq> [])"

text \<open>\<open>a || d\<close> on an optional string.\<close>

definition or_default :: "string option \<Rightarrow> string \<Rightarrow> string" where
  "or_default v d = (case v of None \<Rightarrow> d | Some s \<Rightarrow> if s = [] then d else s)"

text \<open>Decimal printing, as a template literal prints a number.\<close>

definition digit_char :: "nat \<Rightarrow> char" where
  "digit_char d = ''0123456789'' ! d"

fun show_nat :: "nat \<Rightarrow> string" where
  "show_nat n =
     (if n < 10 then [digit_char n] else show_nat (n div 10) @ [digit_char (n mod 10)])"

declare show_nat.simps [simp del]

definition show_int :: "int \<Rightarrow> string" where
  "show_int i = (if i < 0 then CHR ''-'' # show_nat (nat (- i)) else show_nat (nat i))"

text \<open>\<open>Array.prototype.join\<close> on strings.\<close>

fun join :: "string \<Rightarrow> string list \<Rightarrow> string" where
  "join sep [] = []"
| "join sep [x] = x"
| "join sep (x # y # ys) = x @ sep @ join sep (y # ys)"

definition newline :: string where
  "newline = [CHR 0x0A]"

section \<open>Regular expressions of \<open>schemes.ts\<close> and the actions\<close>

text \<open>
  The source uses three regular expressions, each a single character class:
  \<open>/^[a-fA-F0-9]{64}$/\<close> and \<open>/^[0-9a-fA-F]+$/\<close> (anchored at both ends, no flags,
  so \<open>$\<close> is the end of the input) and \<open>/[\x00-\x08\x0E-\x1F]/\<close> (unanchored). A class
  is its list of ranges; the anchored forms are matched character by character.
\<close>

type_synonym char_class = "(char \<times> char) list"

definition in_class :: "char_class \<Rightarrow> char \<Rightarrow> bool" where
  "in_class rs c =
     list_ex (\<lambda>(lo, hi). (of_char lo :: nat) \<le> of_char c \<and> (of_char c :: nat) \<le> of_char hi) rs"

fun match_exactly :: "char_class \<Rightarrow> nat \<Rightarrow> string \<Rightarrow> bool" where
  "match_exactly rs 0 s = (s = [])"
| "match_exactly rs (Suc n) [] = False"
| "match_exactly rs (Suc n) (c # s) = (in_class rs c \<and> match_exactly rs n s)"

fun match_plus :: "char_class \<Rightarrow> string \<Rightarrow> bool" where
  "match_plus rs [] = False"
| "match_plus rs (c # s) = (in_class rs c \<and> (s = [] \<or> match_plus rs s))"


text \<open>\<open>[a-fA-F0-9]\<close> of the schema and \<open>[0-9a-fA-F]\<close> of \<open>privateKeyToAddress\<close>.\<close>

definition schema_hex_class :: char_class where
  "schema_hex_class = [(CHR ''a'', CHR ''f''), (CHR ''A'', CHR ''F''), (CHR ''0'', CHR ''9'')]"

definition address_hex_class :: char_class where
  "address_hex_class = [(CHR ''0'', CHR ''9''), (CHR ''a'', CHR ''f''), (CHR ''A'', CHR ''F'')]"


section \<open>HTTP exchanges\<close>

text \<open>
  \<open>new URL(s)\<close> followed by \<open>searchParams.set\<close> is kept structured: the string given
  to the constructor and the parameters set on it. Parsing, serialising and
  percent-encoding belong to the URL library; the constructor is taken to succeed
  (the base URL has passed the schema).
\<close>

record url =
  href :: string
  searchParams :: "(string \<times> string) list"

datatype http_method = GET | POST

text \<open>
  A part of a multipart form: \<open>append(name, blobOrBuffer, filename)\<close> with the type of
  the Blob when there is one, or \<open>append(name, value)\<close>.
\<close>

datatype part =
    FilePart string bytes string "string option"
  | Field string string

datatype request_body =
    NoBody
  | JsonBody "(string \<times> string) list"
  | FormData "part list"

record request =
  rq_method :: http_method
  rq_url :: url
  rq_headers :: "(string \<times> string) list"
  rq_body :: request_body

record response =
  status :: nat
  respBody :: bytes

text \<open>\<open>response.ok\<close>: the status is in the range 200 to 299.\<close>

definition ok :: "response \<Rightarrow> bool" where
  "ok r = (200 \<le> status r \<and> status r \<le> 299)"

text \<open>\<open>fetch\<close> resolves to a response or rejects (no connection) with a message.\<close>

datatype fetch_result = NetworkError string | Response response

text \<open>
  A parsed JSON document is read only through string-valued fields of an object
  (\<open>accessToken\<close>, \<open>refreshToken\<close>, \<open>Mid\<close>): it is an association list from field
  names to strings, and a missing field reads as \<open>undefined\<close>.
\<close>

type_synonym json = "(string \<times> string) list"

section \<open>The environment: the remote store and the libraries\<close>

text \<open>
  Everything the repository calls but does not define is a field of the environment.
  The remote store and the network are \<open>fetch\<close>, a function of the state \<open>'w\<close> of the
  world. \<open>ethers\<close> is what the dynamic \<open>import("ethers")\<close> gives: the import can
  reject, the module can lack the \<open>ethers\<close> export, or it provides
  \<open>new Wallet(key).signMessage(msg)\<close>, which can throw. \<open>walletAddress\<close> is
  \<open>new ethers.Wallet(key).address\<close> of the static import in \<open>schemes.ts\<close>. Reading a
  response body (\<open>text()\<close>, \<open>arrayBuffer()\<close>) is taken to succeed; \<open>json()\<close> can
  throw.
\<close>

datatype ethers_module =
    ImportFails string
  | NoEthersExport
  | Ethers "string \<Rightarrow> string \<Rightarrow> error + string"

text \<open>
  The multipart implementation chosen at run time: the global \<open>FormData\<close>, else the
  \<open>form-data\<close> package (with the boundary its \<open>getHeaders()\<close> announces), else none.
\<close>

datatype formdata_impl = GlobalFormData | FormDataPackage string | NoFormData

datatype zod_issue = InvalidUrl | RequiredString | InvalidRegex | NotANumber

record 'w env =
  fetch :: "'w \<Rightarrow> request \<Rightarrow> fetch_result \<times> 'w"
  jsonParse :: "bytes \<Rightarrow> error + json"
  importEthers :: ethers_module
  walletAddress :: "string \<Rightarrow> error + string"
  formDataImpl :: formdata_impl
  isUrl :: "string \<Rightarrow> bool"
  parseInt :: "string \<Rightarrow> int option"
  zodMessage :: "zod_issue \<Rightarrow> string"
  readFileSync :: "string \<Rightarrow> error + bytes"
  dateNow :: "'w \<Rightarrow> nat"
  toUtf8 :: "bytes \<Rightarrow> string"
  toBase64 :: "bytes \<Rightarrow> string"

section \<open>Configuration (\<open>schemes.ts\<close>)\<close>

record MefsConfig =
  MEFS_API_URL :: string
  MEFS_WALLET_ADDRESS :: string
  MEFS_PRIVATE_KEY :: string
  MEFS_CHAIN_ID :: int
  MEFS_ORIGIN :: string

text \<open>
  The agent runtime, as far as the plugin reads it: \<open>runtime.getSetting\<close>, which
  gives a string or nothing (\<open>null\<close> and \<open>undefined\<close> are \<open>None\<close>).
\<close>

record runtime =
  getSetting :: "string \<Rightarrow> string option"

text \<open>
  \<open>privateKeyToAddress\<close>: the empty key, then the optional \<open>0x\<close> prefix, then the
  hexadecimal test (one character or more), then the wallet of the library; a failure
  of the library is wrapped.
\<close>

definition privateKeyToAddress :: "'w env \<Rightarrow> string \<Rightarrow> error + string" where
  "privateKeyToAddress env privateKeyHex =
     (if privateKeyHex = [] then Inl (Error ''Private key cannot be empty'')
      else
        let cleanKey = (if take 2 privateKeyHex = ''0x'' then drop 2 privateKeyHex
                        else privateKeyHex)
        in if \<not> match_plus address_hex_class cleanKey
           then Inl (Error ''Invalid hex format for private key'')
           else (case walletAddress env (''0x'' @ cleanKey) of
                   Inl (Error msg) \<Rightarrow>
                     Inl (Error (''Failed to convert private key to address: '' @ msg))
                 | Inr address \<Rightarrow> Inr address))"

text \<open>
  \<open>storageClientEnvSchema.parse(config)\<close>: the issues of the four fields, in the order
  of the schema. The two URLs are strings by then (the \<open>||\<close> defaults); the key is a
  string or missing; the chain id is the number \<open>parseInt\<close> gave, or \<open>NaN\<close> (\<open>None\<close>).
\<close>

definition schema_issues ::
  "'w env \<Rightarrow> string \<Rightarrow> string option \<Rightarrow> int option \<Rightarrow> string \<Rightarrow> (string \<times> zod_issue) list"
where
  "schema_issues env api key chain origin =
     (if isUrl env api then [] else [(''MEFS_API_URL'', InvalidUrl)]) @
     (case key of
        None \<Rightarrow> [(''MEFS_PRIVATE_KEY'', RequiredString)]
      | Some k \<Rightarrow> if match_exactly schema_hex_class 64 k then []
                  else [(''MEFS_PRIVATE_KEY'', InvalidRegex)]) @
     (case chain of None \<Rightarrow> [(''MEFS_CHAIN_ID'', NotANumber)] | Some _ \<Rightarrow> []) @
     (if isUrl env origin then [] else [(''MEFS_ORIGIN'', InvalidUrl)])"

definition validateStorageClientConfig :: "'w env \<Rightarrow> runtime \<Rightarrow> error + MefsConfig" where
  "validateStorageClientConfig env rt =
     (let chainIdStr = getSetting rt ''MEFS_CHAIN_ID'';
          api = or_default (getSetting rt ''MEFS_API_URL'') ''https://api.mefs.io:10000/produce'';
          key = getSetting rt ''MEFS_PRIVATE_KEY'';
          chain = (case chainIdStr of
                     None \<Rightarrow> Some 985
                   | Some s \<Rightarrow> if s = [] then Some 985 else parseInt env s);
          origin = or_default (getSetting rt ''MEFS_ORIGIN'') ''https://memo.io''
      in case (schema_issues env api key chain origin, key, chain) of
           ([], Some k, Some n) \<Rightarrow>
             (case (if k \<noteq> [] then privateKeyToAddress env k else Inr []) of
                Inl (Error msg) \<Rightarrow>
                  Inl (Error (''Failed to convert private key to address: '' @ msg))
              | Inr address \<Rightarrow>
                  Inr \<lparr>MEFS_API_URL = api, MEFS_WALLET_ADDRESS = address,
                       MEFS_PRIVATE_KEY = k, MEFS_CHAIN_ID = n, MEFS_ORIGIN = origin\<rparr>)
         | (issues, _, _) \<Rightarrow>
             Inl (Error (''Storage client configuration validation failed:'' @ newline @
                    join newline
                      (map (\<lambda>(path, issue). path @ '': '' @ zodMessage env issue) issues))))"

section \<open>The storage service (\<open>StorageService\<close>)\<close>

record StorageService =
  mefsConfig :: "MefsConfig option"
  accessToken :: "string option"
  refreshToken :: "string option"
  runtime :: "runtime option"

text \<open>
  A machine is the service, the state of the world, and the exchanges made so far:
  each request sent with what \<open>fetch\<close> gave for it, oldest first.
\<close>

record 'w machine =
  svc :: StorageService
  net :: 'w
  exchanges :: "(request \<times> fetch_result) list"

definition do_fetch :: "'w env \<Rightarrow> 'w machine \<Rightarrow> request \<Rightarrow> fetch_result \<times> 'w machine" where
  "do_fetch env m rq =
     (case fetch env (net m) rq of
        (r, w') \<Rightarrow> (r, m\<lparr>net := w', exchanges := exchanges m @ [(rq, r)]\<rparr>))"

text \<open>The exchanges made between an earlier machine and a later one.\<close>

definition new_exchanges :: "'w machine \<Rightarrow> 'w machine \<Rightarrow> (request \<times> fetch_result) list" where
  "new_exchanges m m' = drop (length (exchanges m)) (exchanges m')"

definition challengeRequest :: "MefsConfig \<Rightarrow> request" where
  "challengeRequest c =
     \<lparr>rq_method = GET,
      rq_url = \<lparr>href = MEFS_API_URL c @ ''/challenge'',
                searchParams = [(''address'', MEFS_WALLET_ADDRESS c),
                                (''chainid'', show_int (MEFS_CHAIN_ID c))]\<rparr>,
      rq_headers = [(''Origin'', if MEFS_ORIGIN c \<noteq> [] then MEFS_ORIGIN c
                                 else MEFS_API_URL c)],
      rq_body = NoBody\<rparr>"

definition loginRequest :: "MefsConfig \<Rightarrow> string \<Rightarrow> string \<Rightarrow> request" where
  "loginRequest c challengeMessage signature =
     \<lparr>rq_method = POST,
      rq_url = \<lparr>href = MEFS_API_URL c @ ''/login'', searchParams = []\<rparr>,
      rq_headers = [(''Content-Type'', ''application/json'')],
      rq_body = JsonBody [(''message'', challengeMessage), (''signature'', signature)]\<rparr>"

definition loginToMEFS :: "'w env \<Rightarrow> 'w machine \<Rightarrow> (error + unit) \<times> 'w machine" where
  "loginToMEFS env m =
     (case mefsConfig (svc m) of
        None \<Rightarrow> (Inl (Error ''Storage config not initialized''), m)
      | Some c \<Rightarrow>
          (case do_fetch env m (challengeRequest c) of
             (NetworkError msg, m1) \<Rightarrow> (Inl (Error msg), m1)
           | (Response challengeResponse, m1) \<Rightarrow>
               if \<not> ok challengeResponse
               then (Inl (Error (''Failed to get challenge: '' @
                        show_nat (status challengeResponse) @ '' '' @
                        respBody challengeResponse)), m1)
               else
                 (case importEthers env of
                    ImportFails msg \<Rightarrow> (Inl (Error msg), m1)
                  | NoEthersExport \<Rightarrow>
                      (Inl (Error ''ethers module not found. Please install ethers package: npm install ethers''), m1)
                  | Ethers signMessage \<Rightarrow>
                      (case signMessage (MEFS_PRIVATE_KEY c) (respBody challengeResponse) of
                         Inl e \<Rightarrow> (Inl e, m1)
                       | Inr signature \<Rightarrow>
                           (case do_fetch env m1
                                   (loginRequest c (respBody challengeResponse) signature) of
                              (NetworkError msg, m2) \<Rightarrow> (Inl (Error msg), m2)
                            | (Response loginResponse, m2) \<Rightarrow>
                                if \<not> ok loginResponse
                                then (Inl (Error (''Failed to login: '' @
                                         show_nat (status loginResponse) @ '' '' @
                                         respBody loginResponse)), m2)
                                else
                                  (case jsonParse env (respBody loginResponse) of
                                     Inl e \<Rightarrow> (Inl e, m2)
                                   | Inr loginResult \<Rightarrow>
                                       (Inr (),
                                        m2\<lparr>svc := (svc m2)
                                           \<lparr>accessToken := map_of loginResult ''accessToken'',
                                            refreshToken := map_of loginResult ''refreshToken''\<rparr>\<rparr>)))))))"

definition initializeStorage :: "'w env \<Rightarrow> 'w machine \<Rightarrow> (error + unit) \<times> 'w machine" where
  "initializeStorage env m =
     (if mefsConfig (svc m) \<noteq> None \<and> truthy (accessToken (svc m)) then (Inr (), m)
      else
        (case runtime (svc m) of
           None \<Rightarrow> (Inl (Error ''Runtime not available''), m)
         | Some rt \<Rightarrow>
             (case validateStorageClientConfig env rt of
                Inl e \<Rightarrow> (Inl e, m)
              | Inr cfg \<Rightarrow> loginToMEFS env (m\<lparr>svc := (svc m)\<lparr>mefsConfig := Some cfg\<rparr>\<rparr>))))"

definition getAuthHeaders :: "StorageService \<Rightarrow> error + (string \<times> string) list" where
  "getAuthHeaders s =
     (case accessToken s of
        None \<Rightarrow> Inl (Error ''Not authenticated. Please initialize storage first.'')
      | Some t \<Rightarrow>
          if t = [] then Inl (Error ''Not authenticated. Please initialize storage first.'')
          else Inr [(''Authorization'', ''Bearer '' @ t)])"

definition stop :: "'w machine \<Rightarrow> 'w machine" where
  "stop m = m\<lparr>svc := (svc m)\<lparr>mefsConfig := None\<rparr>\<rparr>"

text \<open>
  The first lines of \<open>uploadFile\<close> and of \<open>retrieveFile\<close> after the configuration
  check: \<open>if (!this.accessToken) await this.loginToMEFS()\<close>.
\<close>

definition loginIfNoToken :: "'w env \<Rightarrow> 'w machine \<Rightarrow> (error + unit) \<times> 'w machine" where
  "loginIfNoToken env m =
     (if \<not> truthy (accessToken (svc m)) then loginToMEFS env m else (Inr (), m))"

text \<open>
  The multipart body of \<open>uploadFile\<close>: the file part (a typed Blob under the global
  \<open>FormData\<close>, the Buffer itself under the package), then \<open>public\<close> or \<open>key\<close>.
\<close>

definition uploadForm ::
  "formdata_impl \<Rightarrow> bytes \<Rightarrow> string \<Rightarrow> bool \<Rightarrow> string option \<Rightarrow> part list"
where
  "uploadForm impl buffer filename publicFile key =
     [FilePart ''file'' buffer filename
        (if impl = GlobalFormData then Some ''application/octet-stream'' else None)] @
     (if publicFile then [Field ''public'' ''true'']
      else (case key of
              None \<Rightarrow> []
            | Some k \<Rightarrow> if k \<noteq> [] then [Field ''key'' k] else []))"

text \<open>\<open>{ ...headers, ...formHeaders }\<close>: a later key replaces an earlier one.\<close>

definition spread :: "(string \<times> string) list \<Rightarrow> (string \<times> string) list \<Rightarrow> (string \<times> string) list" where
  "spread hs fs = filter (\<lambda>(k, v). k \<notin> fst ` set fs) hs @ fs"

definition uploadHeaders :: "formdata_impl \<Rightarrow> (string \<times> string) list \<Rightarrow> (string \<times> string) list" where
  "uploadHeaders impl hdrs =
     (case impl of
        FormDataPackage boundary \<Rightarrow>
          spread hdrs [(''content-type'', ''multipart/form-data; boundary='' @ boundary)]
      | _ \<Rightarrow> hdrs)"

definition uploadRequest ::
  "MefsConfig \<Rightarrow> formdata_impl \<Rightarrow> (string \<times> string) list \<Rightarrow> part list \<Rightarrow> request"
where
  "uploadRequest c impl hdrs form =
     \<lparr>rq_method = POST,
      rq_url = \<lparr>href = MEFS_API_URL c @ ''/mefs/'', searchParams = []\<rparr>,
      rq_headers = uploadHeaders impl hdrs,
      rq_body = FormData form\<rparr>"

text \<open>
  \<open>uploadFile\<close> returns \<open>result.Mid\<close>, which is \<open>undefined\<close> (\<open>None\<close>) when the
  response has no such field.
\<close>

definition uploadFile ::
  "'w env \<Rightarrow> 'w machine \<Rightarrow> bytes \<Rightarrow> string \<Rightarrow> bool \<Rightarrow> string option
     \<Rightarrow> (error + string option) \<times> 'w machine"
where
  "uploadFile env m buffer filename publicFile key =
     (case mefsConfig (svc m) of
        None \<Rightarrow> (Inl (Error ''Storage config not initialized''), m)
      | Some c \<Rightarrow>
          (case loginIfNoToken env m of
             (Inl e, m1) \<Rightarrow> (Inl e, m1)
           | (Inr _, m1) \<Rightarrow>
               if formDataImpl env = NoFormData
               then (Inl (Error ''FormData is not available. Please install 'form-data' package or use Node.js 18+''), m1)
               else
                 (case getAuthHeaders (svc m1) of
                    Inl e \<Rightarrow> (Inl e, m1)
                  | Inr hdrs \<Rightarrow>
                      (case do_fetch env m1
                              (uploadRequest c (formDataImpl env) hdrs
                                 (uploadForm (formDataImpl env) buffer filename publicFile key)) of
                         (NetworkError msg, m2) \<Rightarrow> (Inl (Error msg), m2)
                       | (Response rsp, m2) \<Rightarrow>
                           if \<not> ok rsp
                           then (Inl (Error (''Failed to upload file: '' @
                                    show_nat (status rsp) @ '' '' @ respBody rsp)), m2)
                           else
                             (case jsonParse env (respBody rsp) of
                                Inl e \<Rightarrow> (Inl e, m2)
                              | Inr result \<Rightarrow> (Inr (map_of result ''Mid''), m2))))))"

definition retrieveRequest ::
  "MefsConfig \<Rightarrow> (string \<times> string) list \<Rightarrow> string \<Rightarrow> string option \<Rightarrow> request"
where
  "retrieveRequest c hdrs cid key =
     \<lparr>rq_method = GET,
      rq_url = \<lparr>href = MEFS_API_URL c @ ''/mefs/'' @ cid,
                searchParams = (case key of
                                  None \<Rightarrow> []
                                | Some k \<Rightarrow> if k \<noteq> [] then [(''key'', k)] else [])\<rparr>,
      rq_headers = hdrs,
      rq_body = NoBody\<rparr>"

definition retrieveFile ::
  "'w env \<Rightarrow> 'w machine \<Rightarrow> string \<Rightarrow> string option \<Rightarrow> (error + bytes) \<times> 'w machine"
where
  "retrieveFile env m cid key =
     (case mefsConfig (svc m) of
        None \<Rightarrow> (Inl (Error ''Storage config not initialized''), m)
      | Some c \<Rightarrow>
          (case loginIfNoToken env m of
             (Inl e, m1) \<Rightarrow> (Inl e, m1)
           | (Inr _, m1) \<Rightarrow>
               (case getAuthHeaders (svc m1) of
                  Inl e \<Rightarrow> (Inl e, m1)
                | Inr hdrs \<Rightarrow>
                    (case do_fetch env m1 (retrieveRequest c hdrs cid key) of
                       (NetworkError msg, m2) \<Rightarrow> (Inl (Error msg), m2)
                     | (Response rsp, m2) \<Rightarrow>
                         if \<not> ok rsp
                         then (Inl (Error (''Failed to retrieve file: '' @
                                  show_nat (status rsp) @ '' '' @ respBody rsp)), m2)
                         else (Inr (respBody rsp), m2)))))"

section \<open>The retrieve action (\<open>retrieveAction.handler\<close>)\<close>

text \<open>
  The result of an action: \<open>success\<close>, \<open>text\<close>, \<open>data.actions\<close> and the fields of
  \<open>values\<close> the two handlers set. A handler that rejects gives no result: it
  returns \<open>Inl\<close> of the error.
\<close>

record retrieved_file =
  rf_cid :: string
  rf_content :: string
  rf_size :: nat

record ActionResult =
  success :: bool
  res_text :: string
  data_actions :: "string list"
  values_error :: "string option"
  values_retrievedFiles :: "retrieved_file list option"
  values_cidList :: "string option"

definition failure :: "string \<Rightarrow> string \<Rightarrow> string \<Rightarrow> ActionResult" where
  "failure action txt err =
     \<lparr>success = False, res_text = txt, data_actions = [action],
      values_error = Some err, values_retrievedFiles = None, values_cidList = None\<rparr>"

text \<open>
  The optional callback of a handler is an asynchronous function: handed a content,
  its promise resolves or rejects with an error (\<open>Some\<close> of it). It answers by the
  text it is given; within one run of a handler no two calls hand it the same text.
  It has no effect on the service. \<open>await callback?.({text})\<close>:
\<close>

type_synonym callback = "(string \<Rightarrow> error option) option"

definition awaitCallback :: "callback \<Rightarrow> string \<Rightarrow> error option" where
  "awaitCallback callback txt = (case callback of None \<Rightarrow> None | Some f \<Rightarrow> f txt)"








section \<open>The upload action (\<open>uploadAction.handler\<close>)\<close>

record attachment =
  att_url :: string
  att_title :: "string option"

text \<open>
  A message, as far as the handler reads it: \<open>content.text\<close> (missing content and
  missing text both read as \<open>undefined\<close>) and \<open>content.attachments\<close>, which is
  \<open>undefined\<close> (\<open>None\<close>) or an array.
\<close>

record memory =
  mem_text :: "string option"
  mem_attachments :: "attachment list option"

text \<open>\<open>url.split('/').pop()\<close>: what follows the last slash.\<close>

definition last_segment :: "string \<Rightarrow> string" where
  "last_segment s = rev (takeWhile (\<lambda>c. c \<noteq> CHR ''/'') (rev s))"

definition attachmentName :: "attachment \<Rightarrow> string" where
  "attachmentName attached =
     (case att_title attached of
        Some t \<Rightarrow> if t \<noteq> [] then t
                  else or_default (Some (last_segment (att_url attached))) ''file''
      | None \<Rightarrow> or_default (Some (last_segment (att_url attached))) ''file'')"

text \<open>Both loops stop at the first error: the handler rethrows it.\<close>

fun uploadAttachments ::
  "'w env \<Rightarrow> attachment list \<Rightarrow> 'w machine \<Rightarrow> string option list
     \<Rightarrow> (error + string option list) \<times> 'w machine"
where
  "uploadAttachments env [] m cidResults = (Inr cidResults, m)"
| "uploadAttachments env (attached # rest) m cidResults =
     (case readFileSync env (att_url attached) of
        Inl e \<Rightarrow> (Inl e, m)
      | Inr content \<Rightarrow>
          (case uploadFile env m content (attachmentName attached) False None of
             (Inl e, m1) \<Rightarrow> (Inl e, m1)
           | (Inr cid, m1) \<Rightarrow> uploadAttachments env rest m1 (cidResults @ [cid])))"

fun uploadResponses ::
  "'w env \<Rightarrow> memory list \<Rightarrow> 'w machine \<Rightarrow> string option list
     \<Rightarrow> (error + string option list) \<times> 'w machine"
where
  "uploadResponses env [] m cidResults = (Inr cidResults, m)"
| "uploadResponses env (response # rest) m cidResults =
     (if truthy (mem_text response)
      then
        (case uploadFile env m (case mem_text response of Some t \<Rightarrow> t | None \<Rightarrow> [])
                (''response_'' @ show_nat (dateNow env (net m)) @ ''.txt'') False None of
           (Inl e, m1) \<Rightarrow> (Inl e, m1)
         | (Inr cid, m1) \<Rightarrow> uploadResponses env rest m1 (cidResults @ [cid]))
      else uploadResponses env rest m cidResults)"

text \<open>
  \<open>`File ${idx + 1}: ${cid}`\<close> prints a missing CID as \<open>undefined\<close>; \<open>join\<close> prints it
  as the empty string.
\<close>

fun cidLines :: "nat \<Rightarrow> string option list \<Rightarrow> string list" where
  "cidLines idx [] = []"
| "cidLines idx (cid # cids) =
     (''File '' @ show_nat (idx + 1) @ '': '' @
        (case cid of None \<Rightarrow> ''undefined'' | Some c \<Rightarrow> c)) # cidLines (idx + 1) cids"

definition joinCids :: "string option list \<Rightarrow> string" where
  "joinCids cidResults =
     join '', '' (map (\<lambda>cid. case cid of None \<Rightarrow> [] | Some c \<Rightarrow> c) cidResults)"

definition uploadFailure :: "string \<Rightarrow> ActionResult" where
  "uploadFailure msg =
     failure ''STORAGE_UPLOAD''
       ''Sorry, failed to upload file(s) to MEFS. Please try again later.'' msg"

text \<open>
  The \<open>catch\<close> block of the handler and the return of a result inside the \<open>try\<close>
  block, as for the retrieve action. The callback is handed the apology, not the
  message of the error.
\<close>

definition uploadCaught :: "callback \<Rightarrow> string \<Rightarrow> error + ActionResult" where
  "uploadCaught callback msg =
     (case awaitCallback callback
             ''Sorry, failed to upload file(s) to MEFS. Please try again later.'' of
        Some e \<Rightarrow> Inl e
      | None \<Rightarrow> Inr (uploadFailure msg))"

definition uploadReply :: "callback \<Rightarrow> ActionResult \<Rightarrow> error + ActionResult" where
  "uploadReply callback result =
     (case awaitCallback callback (res_text result) of
        Some (Error msg) \<Rightarrow> uploadCaught callback msg
      | None \<Rightarrow> Inr result)"

text \<open>
  The handler. In the guard for a missing file the callback is called without
  \<open>await\<close>: its rejection does not reach the handler. The progress message is
  awaited before the \<open>try\<close> block: a rejection there makes the handler reject.
\<close>

definition uploadHandler ::
  "'w env \<Rightarrow> callback \<Rightarrow> bool \<Rightarrow> 'w machine \<Rightarrow> memory \<Rightarrow> memory list option
     \<Rightarrow> (error + ActionResult) \<times> 'w machine"
where
  "uploadHandler env callback serviceAvailable m message responses =
     (if mem_attachments message = Some []
      then (Inr (failure ''STORAGE_UPLOAD''
                   ''Looks like you didn't attach any files. Please attach a file and try again.''
                   ''No file to upload''), m)
      else
        (case awaitCallback callback ''OK! Uploading file(s) to MEFS...'' of
           Some e \<Rightarrow> (Inl e, m)
         | None \<Rightarrow>
             if \<not> serviceAvailable
             then (uploadReply callback
                     (failure ''STORAGE_UPLOAD''
                        ''I'm sorry, the Storage service is not available. Please try again later.''
                        ''Storage service not available in runtime''), m)
             else
               (case initializeStorage env m of
                  (Inl (Error msg), m1) \<Rightarrow> (uploadCaught callback msg, m1)
                | (Inr _, m1) \<Rightarrow>
                    (case uploadAttachments env
                            (case mem_attachments message of None \<Rightarrow> [] | Some as \<Rightarrow> as)
                            m1 [] of
                       (Inl (Error msg), m2) \<Rightarrow> (uploadCaught callback msg, m2)
                     | (Inr attached, m2) \<Rightarrow>
                         (case uploadResponses env
                                 (case responses of None \<Rightarrow> [] | Some rs \<Rightarrow> rs)
                                 m2 attached of
                            (Inl (Error msg), m3) \<Rightarrow> (uploadCaught callback msg, m3)
                          | (Inr cidResults, m3) \<Rightarrow>
                              (uploadReply callback
                                 \<lparr>success = True,
                                  res_text = ''File(s) uploaded to MEFS successfully!'' @
                                             newline @ newline @ ''File CIDs:'' @ newline @
                                             join newline (cidLines 0 cidResults),
                                  data_actions = [''STORAGE_UPLOAD''],
                                  values_error = None,
                                  values_retrievedFiles = None,
                                  values_cidList = Some (joinCids cidResults)\<rparr>, m3))))))"

section \<open>Vocabulary of the properties\<close>

text \<open>
  The requests of the store proper are those under \<open>{apiUrl}/mefs/\<close>; the token a
  request carries is what follows \<open>Bearer\<close> in its \<open>Authorization\<close> header.
\<close>

definition storageRequest :: "MefsConfig \<Rightarrow> request \<Rightarrow> bool" where
  "storageRequest c rq =
     (take (length (MEFS_API_URL c) + 6) (href (rq_url rq)) = MEFS_API_URL c @ ''/mefs/'')"

definition bearerToken :: "request \<Rightarrow> string option" where
  "bearerToken rq =
     (case map_of (rq_headers rq) ''Authorization'' of
        None \<Rightarrow> None
      | Some v \<Rightarrow> if take 7 v = ''Bearer '' then Some (drop 7 v) else None)"


text \<open>
  A login that ran to its end: the challenge and then the exchange, both answered
  with a status in the 2xx range.
\<close>

definition completedLogin :: "MefsConfig \<Rightarrow> (request \<times> fetch_result) list \<Rightarrow> bool" where
  "completedLogin c ex =
     (\<exists>r1 sg r2. ex = [(challengeRequest c, Response r1),
                        (loginRequest c (respBody r1) sg, Response r2)] \<and> ok r1 \<and> ok r2)"

text \<open>
  What a call of \<open>uploadFile\<close> or \<open>retrieveFile\<close> owes to authentication, for the
  result and machine \<open>out\<close> it gives from the machine \<open>m\<close>: every request to the
  store it sent carries a non-empty bearer token; and when \<open>m\<close> holds no token, the
  call is the login followed by at most one request to the store. If the login
  fails the call ends there with its error. If it succeeds it was a completed login,
  and then either a token is held and the request to the store, if any, comes after
  the exchanges of the login, or no token is held and the call ends with \<open>refusal\<close>,
  nothing more being sent.
\<close>

definition authenticatedCall ::
  "'w env \<Rightarrow> 'w machine \<Rightarrow> MefsConfig \<Rightarrow> error \<Rightarrow> (error + 'a) \<times> 'w machine \<Rightarrow> bool"
where
  "authenticatedCall env m c refusal out =
     ((\<forall>(rq, rs) \<in> set (new_exchanges m (snd out)).
         storageRequest c rq \<longrightarrow> (\<exists>t. bearerToken rq = Some t \<and> t \<noteq> [])) \<and>
      (\<not> truthy (accessToken (svc m)) \<longrightarrow>
         (case loginToMEFS env m of
            (Inl e, m1) \<Rightarrow> out = (Inl e, m1)
          | (Inr u, m1) \<Rightarrow>
              completedLogin c (new_exchanges m m1) \<and>
              (if truthy (accessToken (svc m1))
               then snd out = m1 \<or>
                    (\<exists>rq rs. storageRequest c rq \<and>
                       new_exchanges m (snd out) = new_exchanges m m1 @ [(rq, rs)])
               else out = (Inl refusal, m1)))))"

text \<open>
  The error of \<open>uploadFile\<close> when no token is held after the login step: the check for
  a \<open>FormData\<close> implementation comes before \<open>getAuthHeaders\<close>.
\<close>

definition uploadRefusal :: "'w env \<Rightarrow> error" where
  "uploadRefusal env =
     (if formDataImpl env = NoFormData
      then Error ''FormData is not available. Please install 'form-data' package or use Node.js 18+''
      else Error ''Not authenticated. Please initialize storage first.'')"

text \<open>
  The hexadecimal digits, written out, and the key without its optional \<open>0x\<close>.
\<close>

definition is_hex :: "char \<Rightarrow> bool" where
  "is_hex c = (c \<in> set ''0123456789abcdefABCDEF'')"

definition strip0x :: "string \<Rightarrow> string" where
  "strip0x k = (if take 2 k = ''0x'' then drop 2 k else k)"





section \<open>A test remote and test machines\<close>

definition demo_api :: string where "demo_api = ''https://api.example''"
definition demo_key :: string where
  "demo_key = ''aaaaaaaaaaaaaaaaaaaaaaaaaaaaaaaaaaaaaaaaaaaaaaaaaaaaaaaaaaaaaaaa''"

definition demo_config :: MefsConfig where
  "demo_config = \<lparr>MEFS_API_URL = demo_api, MEFS_WALLET_ADDRESS = ''0xAddr'',
     MEFS_PRIVATE_KEY = demo_key, MEFS_CHAIN_ID = 985, MEFS_ORIGIN = ''https://origin.example''\<rparr>"

text \<open>
  The world of the test remote is its store, a list of CIDs with their files, newest
  first. It answers a challenge for chain 985, exchanges the expected signature for
  the tokens \<open>tok1\<close> and \<open>ref1\<close>, and serves \<open>/mefs/\<close> to the bearer of \<open>tok1\<close>:
  a POST stores the file part, a GET returns the file stored under the CID.
\<close>
type_synonym demo_world = "(string \<times> bytes) list"

definition demo_cid :: "bytes \<Rightarrow> string" where
  "demo_cid b = ''bafy'' @ b"

definition demo_store :: "demo_world \<Rightarrow> request \<Rightarrow> fetch_result \<times> demo_world" where
  "demo_store w rq =
     (case rq_body rq of
        FormData (FilePart name b filename ty # flags) \<Rightarrow>
          (Response \<lparr>status = 200, respBody = ''Mid='' @ demo_cid b\<rparr>, (demo_cid b, b) # w)
      | _ \<Rightarrow>
          (case map_of w (drop (length (demo_api @ ''/mefs/'')) (href (rq_url rq))) of
             Some b \<Rightarrow> (Response \<lparr>status = 200, respBody = b\<rparr>, w)
           | None \<Rightarrow> (Response \<lparr>status = 404, respBody = ''not found''\<rparr>, w)))"

definition demo_fetch :: "demo_world \<Rightarrow> request \<Rightarrow> fetch_result \<times> demo_world" where
  "demo_fetch w rq =
     (if href (rq_url rq) = demo_api @ ''/challenge''
      then (if map_of (searchParams (rq_url rq)) ''chainid'' = Some ''985''
            then (Response \<lparr>status = 200, respBody = ''sign-this-xyz''\<rparr>, w)
            else (Response \<lparr>status = 400, respBody = ''unknown chain''\<rparr>, w))
      else if href (rq_url rq) = demo_api @ ''/login''
      then (if rq_body rq = JsonBody [(''message'', ''sign-this-xyz''), (''signature'', ''0xsigned'')]
            then (Response \<lparr>status = 200, respBody = ''accessToken=tok1''\<rparr>, w)
            else (Response \<lparr>status = 401, respBody = ''bad signature''\<rparr>, w))
      else if map_of (rq_headers rq) ''Authorization'' = Some ''Bearer tok1''
      then demo_store w rq
      else (Response \<lparr>status = 401, respBody = ''unauthorized''\<rparr>, w))"

definition demo_json :: "bytes \<Rightarrow> error + json" where
  "demo_json s =
     (if s = ''accessToken=tok1'' then Inr [(''accessToken'', ''tok1''), (''refreshToken'', ''ref1'')]
      else if take 4 s = ''Mid='' then Inr [(''Mid'', drop 4 s)]
      else if s = ''{}'' then Inr []
      else Inl (Error ''Unexpected token''))"

definition demo_sign :: "string \<Rightarrow> string \<Rightarrow> error + string" where
  "demo_sign key msg = (if key = demo_key then Inr ''0xsigned'' else Inr ''0xforged'')"

definition demo_wallet :: "string \<Rightarrow> error + string" where
  "demo_wallet key = (if length key = 66 then Inr ''0xAddr'' else Inl (Error ''invalid private key''))"

definition demo_isUrl :: "string \<Rightarrow> bool" where
  "demo_isUrl s = (take 8 s = ''https://'')"

definition demo_parseInt :: "string \<Rightarrow> int option" where
  "demo_parseInt s = (if s = ''985'' then Some 985 else if s = ''1'' then Some 1 else None)"

definition demo_zodMessage :: "zod_issue \<Rightarrow> string" where
  "demo_zodMessage i = (case i of InvalidUrl \<Rightarrow> ''Invalid url'' | RequiredString \<Rightarrow> ''Required''
      | InvalidRegex \<Rightarrow> ''Invalid'' | NotANumber \<Rightarrow> ''Expected number, received nan'')"

definition demo_readFileSync :: "string \<Rightarrow> error + bytes" where
  "demo_readFileSync path = (if path = ''/tmp/hi.txt'' then Inr ''HI'' else Inl (Error ''ENOENT''))"

definition demo_dateNow :: "demo_world \<Rightarrow> nat" where
  "demo_dateNow w = 1700 + length w"

definition demo_text :: "bytes \<Rightarrow> string" where
  "demo_text b = b"

definition demo_env :: "demo_world env" where
  "demo_env = \<lparr>fetch = demo_fetch, jsonParse = demo_json, importEthers = Ethers demo_sign,
     walletAddress = demo_wallet, formDataImpl = GlobalFormData, isUrl = demo_isUrl,
     parseInt = demo_parseInt, zodMessage = demo_zodMessage, readFileSync = demo_readFileSync,
     dateNow = demo_dateNow, toUtf8 = demo_text, toBase64 = demo_text\<rparr>"

definition demo_getSetting :: "string \<Rightarrow> string option" where
  "demo_getSetting name =
     (if name = ''MEFS_API_URL'' then Some demo_api
      else if name = ''MEFS_PRIVATE_KEY'' then Some demo_key
      else if name = ''MEFS_ORIGIN'' then Some ''https://origin.example''
      else None)"

definition demo_runtime :: runtime where
  "demo_runtime = \<lparr>getSetting = demo_getSetting\<rparr>"

definition demo_fresh :: "demo_world machine" where
  "demo_fresh = \<lparr>svc = \<lparr>mefsConfig = None, accessToken = None, refreshToken = None,
       runtime = Some demo_runtime\<rparr>, net = [], exchanges = []\<rparr>"

definition demo_ready :: "demo_world machine" where
  "demo_ready = \<lparr>svc = \<lparr>mefsConfig = Some demo_config, accessToken = Some ''tok1'',
       refreshToken = Some ''ref1'', runtime = Some demo_runtime\<rparr>, net = [], exchanges = []\<rparr>"

text \<open>A machine whose token the test remote does not know.\<close>

definition demo_stale :: "demo_world machine" where
  "demo_stale = demo_ready\<lparr>svc := (svc demo_ready)\<lparr>accessToken := Some ''old''\<rparr>\<rparr>"

text \<open>
  A callback that cannot deliver the text of a successful result (it rejects what
  begins with \<open>Retrieved\<close> or \<open>File(s) uploaded\<close>), and one that cannot deliver
  anything.
\<close>

definition demo_failing_send :: "string \<Rightarrow> error option" where
  "demo_failing_send txt =
     (if take 9 txt = ''Retrieved'' \<or> take 16 txt = ''File(s) uploaded''
      then Some (Error ''send failed'') else None)"

definition demo_no_send :: "string \<Rightarrow> error option" where
  "demo_no_send txt = Some (Error ''channel closed'')"

text \<open>Machines without a token: the plain one, one on a chain the remote does not know,
  one whose key the remote did not register.\<close>

definition demo_unauth :: "demo_world machine" where
  "demo_unauth = demo_ready\<lparr>svc := (svc demo_ready)\<lparr>accessToken := None, refreshToken := None\<rparr>\<rparr>"

definition demo_chain1 :: "demo_world machine" where
  "demo_chain1 = demo_unauth\<lparr>svc := (svc demo_unauth)
     \<lparr>mefsConfig := Some (demo_config\<lparr>MEFS_CHAIN_ID := 1\<rparr>)\<rparr>\<rparr>"

definition demo_wrongkey :: "demo_world machine" where
  "demo_wrongkey = demo_unauth\<lparr>svc := (svc demo_unauth)
     \<lparr>mefsConfig := Some (demo_config\<lparr>MEFS_PRIVATE_KEY := ''bbbbbbbbbbbbbbbbbbbbbbbbbbbbbbbbbbbbbbbbbbbbbbbbbbbbbbbbbbbbbbbb''\<rparr>)\<rparr>\<rparr>"

text \<open>
  A remote whose login answers with a JSON object that has no token, for a client
  without any \<open>FormData\<close> implementation.
\<close>

definition tokenless_fetch :: "demo_world \<Rightarrow> request \<Rightarrow> fetch_result \<times> demo_world" where
  "tokenless_fetch w rq =
     (if href (rq_url rq) = demo_api @ ''/login''
      then (Response \<lparr>status = 200, respBody = ''{}''\<rparr>, w)
      else demo_fetch w rq)"

definition tokenless_env :: "demo_world env" where
  "tokenless_env = demo_env\<lparr>fetch := tokenless_fetch, formDataImpl := NoFormData\<rparr>"

text \<open>A runtime whose key setting has the \<open>0x\<close> prefix.\<close>

definition demo_prefixed_getSetting :: "string \<Rightarrow> string option" where
  "demo_prefixed_getSetting name =
     (if name = ''MEFS_PRIVATE_KEY'' then Some (''0x'' @ demo_key) else demo_getSetting name)"

definition demo_prefixed_runtime :: runtime where
  "demo_prefixed_runtime = \<lparr>getSetting = demo_prefixed_getSetting\<rparr>"

text \<open>A machine like \<open>demo_ready\<close> whose remote already stores the file \<open>HI\<close>.\<close>

definition demo_stored :: "demo_world machine" where
  "demo_stored = demo_ready\<lparr>net := [(''bafyHI'', ''HI'')]\<rparr>"

text \<open>A fresh machine whose runtime has the prefixed key.\<close>

definition demo_misconfigured :: "demo_world machine" where
  "demo_misconfigured =
     demo_fresh\<lparr>svc := (svc demo_fresh)\<lparr>runtime := Some demo_prefixed_runtime\<rparr>\<rparr>"

text \<open>A message that is only text: it has no \<open>attachments\<close> field.\<close>

definition demo_message :: memory where
  "demo_message = \<lparr>mem_text = Some ''please upload'', mem_attachments = None\<rparr>"

section \<open>Exchanges made by the service\<close>

lemma new_exchanges_append: "exchanges m' = exchanges m @ ex \<Longrightarrow> new_exchanges m m' = ex"
  by (simp add: new_exchanges_def)


lemma do_fetch_frame:
  "do_fetch env m rq = (r, m1) \<Longrightarrow>
     svc m1 = svc m \<and> exchanges m1 = exchanges m @ [(rq, r)] \<and> fetch env (net m) rq = (r, net m1)"
  by (auto simp: do_fetch_def split: prod.splits)

lemma loginToMEFS_cases:
  assumes "mefsConfig (svc m) = Some c" and "loginToMEFS env m = (res, m')"
  shows "(\<exists>r1. exchanges m' = exchanges m @ [(challengeRequest c, r1)] \<and> svc m' = svc m
            \<and> (\<exists>e. res = Inl e)
            \<and> (\<forall>rsp. r1 = Response rsp \<and> \<not> ok rsp \<longrightarrow>
                  res = Inl (Error (''Failed to get challenge: '' @ show_nat (status rsp) @ '' '' @ respBody rsp))))
       \<or> (\<exists>r1 sg r2. exchanges m' = exchanges m @
              [(challengeRequest c, Response r1), (loginRequest c (respBody r1) sg, r2)]
            \<and> ok r1
            \<and> (case res of
                 Inl e \<Rightarrow> svc m' = svc m \<and>
                   (\<forall>rsp. r2 = Response rsp \<and> \<not> ok rsp \<longrightarrow>
                      e = Error (''Failed to login: '' @ show_nat (status rsp) @ '' '' @ respBody rsp))
               | Inr u \<Rightarrow> (\<exists>rsp j. r2 = Response rsp \<and> ok rsp \<and> jsonParse env (respBody rsp) = Inr j \<and>
                   svc m' = (svc m)\<lparr>accessToken := map_of j ''accessToken'',
                                      refreshToken := map_of j ''refreshToken''\<rparr>)))"
  using assms
  unfolding loginToMEFS_def
  by (auto split: prod.splits fetch_result.splits if_splits ethers_module.splits sum.splits
           dest!: do_fetch_frame)

lemma getAuthHeaders_Inr:
  "getAuthHeaders s = Inr hdrs \<longleftrightarrow>
     (\<exists>t. accessToken s = Some t \<and> t \<noteq> [] \<and> hdrs = [(''Authorization'', ''Bearer '' @ t)])"
  by (auto simp: getAuthHeaders_def split: option.splits)

lemma getAuthHeaders_Inl:
  "getAuthHeaders s = Inl e \<longleftrightarrow>
     (\<not> truthy (accessToken s) \<and> e = Error ''Not authenticated. Please initialize storage first.'')"
  by (auto simp: getAuthHeaders_def truthy_def split: option.splits)

lemma uploadFile_cases:
  assumes "mefsConfig (svc m) = Some c" and "uploadFile env m b f p k = (res, m')"
    and "loginIfNoToken env m = (lr, m1)"
  shows "(m' = m1 \<and> (\<exists>e. res = Inl e) \<and> (lr = Inl (projl res) \<or> lr = Inr () \<and> (formDataImpl env = NoFormData \<or> res = Inl (Error ''Not authenticated. Please initialize storage first.'') \<and> \<not> truthy (accessToken (svc m1)))))
       \<or> (\<exists>t r. lr = Inr () \<and> accessToken (svc m1) = Some t \<and> t \<noteq> [] \<and>
             exchanges m' = exchanges m1 @
               [(uploadRequest c (formDataImpl env) [(''Authorization'', ''Bearer '' @ t)]
                   (uploadForm (formDataImpl env) b f p k), r)] \<and>
             svc m' = svc m1 \<and>
             (case r of
                NetworkError msg \<Rightarrow> res = Inl (Error msg)
              | Response rsp \<Rightarrow>
                  if \<not> ok rsp
                  then res = Inl (Error (''Failed to upload file: '' @ show_nat (status rsp) @ '' '' @ respBody rsp))
                  else (case jsonParse env (respBody rsp) of
                          Inl e \<Rightarrow> res = Inl e
                        | Inr j \<Rightarrow> res = Inr (map_of j ''Mid''))))"
  using assms
  unfolding uploadFile_def
  by (auto simp: getAuthHeaders_Inr getAuthHeaders_Inl split: prod.splits fetch_result.splits if_splits sum.splits
           dest!: do_fetch_frame)

lemma retrieveFile_cases:
  assumes "mefsConfig (svc m) = Some c" and "retrieveFile env m cid k = (res, m')"
    and "loginIfNoToken env m = (lr, m1)"
  shows "(m' = m1 \<and> (\<exists>e. res = Inl e) \<and> (lr = Inl (projl res) \<or> lr = Inr () \<and> res = Inl (Error ''Not authenticated. Please initialize storage first.'') \<and> \<not> truthy (accessToken (svc m1))))
       \<or> (\<exists>t r. lr = Inr () \<and> accessToken (svc m1) = Some t \<and> t \<noteq> [] \<and>
             exchanges m' = exchanges m1 @
               [(retrieveRequest c [(''Authorization'', ''Bearer '' @ t)] cid k, r)] \<and>
             svc m' = svc m1 \<and>
             fetch env (net m1) (retrieveRequest c [(''Authorization'', ''Bearer '' @ t)] cid k) =
               (r, net m') \<and>
             (case r of
                NetworkError msg \<Rightarrow> res = Inl (Error msg)
              | Response rsp \<Rightarrow>
                  if \<not> ok rsp
                  then res = Inl (Error (''Failed to retrieve file: '' @ show_nat (status rsp) @ '' '' @ respBody rsp))
                  else res = Inr (respBody rsp)))"
  using assms
  unfolding retrieveFile_def
  by (auto simp: getAuthHeaders_Inr getAuthHeaders_Inl split: prod.splits fetch_result.splits if_splits sum.splits
           dest!: do_fetch_frame)

lemmas service_defs =
  uploadFile_def retrieveFile_def loginIfNoToken_def loginToMEFS_def do_fetch_def
  getAuthHeaders_def initializeStorage_def stop_def truthy_def ok_def new_exchanges_def
  challengeRequest_def loginRequest_def uploadRequest_def retrieveRequest_def uploadForm_def
  uploadHeaders_def spread_def show_int_def

lemmas demo_defs =
  demo_env_def demo_fetch_def demo_store_def demo_json_def demo_sign_def demo_config_def
  demo_api_def demo_key_def demo_cid_def demo_ready_def demo_fresh_def demo_stale_def
  demo_wallet_def demo_isUrl_def demo_parseInt_def demo_zodMessage_def demo_readFileSync_def
  demo_dateNow_def demo_text_def demo_runtime_def demo_getSetting_def
  demo_unauth_def demo_chain1_def demo_wrongkey_def demo_failing_send_def demo_no_send_def
  tokenless_env_def tokenless_fetch_def demo_prefixed_runtime_def demo_prefixed_getSetting_def
  demo_stored_def demo_misconfigured_def demo_message_def

lemma show_nat_digits [simp]:
  "show_nat 2 = ''2''" "show_nat 401 = ''401''" "show_nat 400 = ''400''" "show_nat 404 = ''404''"
  "show_nat 985 = ''985''" "show_nat 1 = ''1''" "show_nat (Suc 0) = ''1''"
  by (simp_all add: show_nat.simps digit_char_def)

section \<open>Initialisation\<close>

text \<open>
  Claim C5. When the service already holds a validated configuration and a (non-empty)
  access token, \<open>initializeStorage\<close> returns at once: the call succeeds and the
  machine is the same, so the service, the world and the list of exchanges are
  unchanged and no request was sent.
\<close>

theorem initializeStorage_idempotent:
  "mefsConfig (svc m) \<noteq> None \<Longrightarrow> truthy (accessToken (svc m)) \<Longrightarrow>
     initializeStorage env m = (Inr (), m)"
  by (simp add: initializeStorage_def)

theorem initializeStorage_idempotent_witness:
  "mefsConfig (svc demo_ready) \<noteq> None \<and> truthy (accessToken (svc demo_ready)) \<and>
   initializeStorage demo_env demo_ready = (Inr (), demo_ready)"
  using initializeStorage_idempotent [of demo_ready demo_env]
  by (simp add: demo_ready_def truthy_def)

section \<open>The multipart body of an upload\<close>


lemma loginIfNoToken_exchanges:
  assumes "mefsConfig (svc m) = Some c" and "loginIfNoToken env m = (lr, m1)"
  shows "\<exists>ex. exchanges m1 = exchanges m @ ex \<and>
           (\<forall>(rq, rs) \<in> set ex. rq = challengeRequest c \<or> (\<exists>ch sg. rq = loginRequest c ch sg))"
proof (cases "truthy (accessToken (svc m))")
  case True
  with assms show ?thesis by (simp add: loginIfNoToken_def)
next
  case False
  with assms have "loginToMEFS env m = (lr, m1)" by (simp add: loginIfNoToken_def)
  from loginToMEFS_cases [OF assms(1) this] show ?thesis by auto
qed



section \<open>Validation of the private key\<close>

lemma match_exactly_iff:
  "match_exactly rs n s \<longleftrightarrow> length s = n \<and> list_all (in_class rs) s"
  by (induction rs n s rule: match_exactly.induct) auto

lemma match_plus_iff:
  "match_plus rs s \<longleftrightarrow> s \<noteq> [] \<and> list_all (in_class rs) s"
  by (induction rs s rule: match_plus.induct) auto

lemma of_char_bounds: "(of_char c :: nat) < 256"
  by (cases c) (simp add: of_char_def)

lemma char_eq_nat: "(c = d) = ((of_char c :: nat) = of_char d)"
  by simp

lemma is_hex_code:
  "is_hex c \<longleftrightarrow> (48 \<le> (of_char c :: nat) \<and> (of_char c :: nat) \<le> 57) \<or>
     (97 \<le> (of_char c :: nat) \<and> (of_char c :: nat) \<le> 102) \<or>
     (65 \<le> (of_char c :: nat) \<and> (of_char c :: nat) \<le> 70)"
proof -
  define n where "n = (of_char c :: nat)"
  have "is_hex c \<longleftrightarrow> n \<in> {48, 49, 50, 51, 52, 53, 54, 55, 56, 57,
      97, 98, 99, 100, 101, 102, 65, 66, 67, 68, 69, 70}"
    unfolding is_hex_def n_def
    by (simp add: char_eq_nat [of c])
  also have "\<dots> \<longleftrightarrow> (48 \<le> n \<and> n \<le> 57) \<or> (97 \<le> n \<and> n \<le> 102) \<or> (65 \<le> n \<and> n \<le> 70)"
    by (simp; arith)
  finally show ?thesis by (simp add: n_def)
qed

lemma in_hex_classes:
  "in_class schema_hex_class c = is_hex c" "in_class address_hex_class c = is_hex c"
  by (auto simp: in_class_def schema_hex_class_def address_hex_class_def is_hex_code)


lemma prefixed_not_hex: "take 2 k = ''0x'' \<Longrightarrow> \<not> list_all is_hex k"
proof -
  assume "take 2 k = ''0x''"
  then obtain r where "k = CHR ''0'' # CHR ''x'' # r"
    by (cases k; cases "tl k") auto
  then show ?thesis by (simp add: is_hex_def)
qed

lemma key_issue_iff:
  "(\<forall>i. (''MEFS_PRIVATE_KEY'', i) \<notin> set (schema_issues env api key chain origin)) \<longleftrightarrow>
     (\<exists>k. key = Some k \<and> length k = 64 \<and> list_all is_hex k)"
  by (auto simp: schema_issues_def match_exactly_iff in_hex_classes list_all_iff
           split: option.splits if_splits)

lemma validate_Inr:
  assumes "validateStorageClientConfig env rt = Inr cfg"
  shows "getSetting rt ''MEFS_PRIVATE_KEY'' = Some (MEFS_PRIVATE_KEY cfg) \<and>
         schema_issues env (MEFS_API_URL cfg) (Some (MEFS_PRIVATE_KEY cfg))
           (Some (MEFS_CHAIN_ID cfg)) (MEFS_ORIGIN cfg) = []"
  using assms unfolding validateStorageClientConfig_def Let_def
  by (auto split: list.splits option.splits sum.splits error.splits if_splits)

lemma validate_issue:
  assumes "(p, i) \<in> set (schema_issues env
      (or_default (getSetting rt ''MEFS_API_URL'') ''https://api.mefs.io:10000/produce'')
      (getSetting rt ''MEFS_PRIVATE_KEY'')
      (case getSetting rt ''MEFS_CHAIN_ID'' of None \<Rightarrow> Some 985
       | Some s \<Rightarrow> if s = [] then Some 985 else parseInt env s)
      (or_default (getSetting rt ''MEFS_ORIGIN'') ''https://memo.io''))"
  shows "\<exists>msg. validateStorageClientConfig env rt =
           Inl (Error (''Storage client configuration validation failed:'' @ newline @ msg))"
  using assms unfolding validateStorageClientConfig_def Let_def
  by (auto split: list.splits option.splits)

text \<open>
  Claim C6, as amended. The schema accepts \<open>MEFS_PRIVATE_KEY\<close> exactly when the
  setting is a string of 64 hexadecimal digits as it stands: no prefix is stripped,
  so a configuration that validates holds such a key, and a key that begins with
  \<open>0x\<close> is rejected by \<open>validateStorageClientConfig\<close> with the error of the
  configuration. \<open>privateKeyToAddress\<close> does strip one optional \<open>0x\<close>: it fails with
  \<open>Private key cannot be empty\<close> on the empty key, with
  \<open>Invalid hex format for private key\<close> when what remains is empty or has a character
  that is not a hexadecimal digit, and hands every other key, of any length, to the
  wallet of the library, whose failure it reports as
  \<open>Failed to convert private key to address\<close>.
\<close>

theorem key_validation:
  "((\<forall>i. (''MEFS_PRIVATE_KEY'', i) \<notin> set (schema_issues env api key chain origin)) \<longleftrightarrow>
      (\<exists>k. key = Some k \<and> length k = 64 \<and> list_all is_hex k)) \<and>
   (validateStorageClientConfig env rt = Inr cfg \<longrightarrow>
      getSetting rt ''MEFS_PRIVATE_KEY'' = Some (MEFS_PRIVATE_KEY cfg) \<and>
      length (MEFS_PRIVATE_KEY cfg) = 64 \<and> list_all is_hex (MEFS_PRIVATE_KEY cfg)) \<and>
   (getSetting rt ''MEFS_PRIVATE_KEY'' = Some k \<and> take 2 k = ''0x'' \<longrightarrow>
      (\<exists>msg. validateStorageClientConfig env rt =
         Inl (Error (''Storage client configuration validation failed:'' @ newline @ msg)))) \<and>
   privateKeyToAddress env k =
     (if k = [] then Inl (Error ''Private key cannot be empty'')
      else if strip0x k = [] \<or> \<not> list_all is_hex (strip0x k)
      then Inl (Error ''Invalid hex format for private key'')
      else (case walletAddress env (''0x'' @ strip0x k) of
              Inl (Error msg) \<Rightarrow>
                Inl (Error (''Failed to convert private key to address: '' @ msg))
            | Inr address \<Rightarrow> Inr address))"
proof (intro conjI impI)
  show "(\<forall>i. (''MEFS_PRIVATE_KEY'', i) \<notin> set (schema_issues env api key chain origin)) \<longleftrightarrow>
      (\<exists>k. key = Some k \<and> length k = 64 \<and> list_all is_hex k)"
    by (rule key_issue_iff)
next
  assume v: "validateStorageClientConfig env rt = Inr cfg"
  from validate_Inr [OF v] have g: "getSetting rt ''MEFS_PRIVATE_KEY'' = Some (MEFS_PRIVATE_KEY cfg)"
    and "\<forall>i. (''MEFS_PRIVATE_KEY'', i) \<notin> set (schema_issues env (MEFS_API_URL cfg)
           (Some (MEFS_PRIVATE_KEY cfg)) (Some (MEFS_CHAIN_ID cfg)) (MEFS_ORIGIN cfg))"
    by simp_all
  then have "length (MEFS_PRIVATE_KEY cfg) = 64 \<and> list_all is_hex (MEFS_PRIVATE_KEY cfg)"
    by (simp add: key_issue_iff)
  with g show "getSetting rt ''MEFS_PRIVATE_KEY'' = Some (MEFS_PRIVATE_KEY cfg)"
    "length (MEFS_PRIVATE_KEY cfg) = 64" "list_all is_hex (MEFS_PRIVATE_KEY cfg)"
    by simp_all
next
  assume h: "getSetting rt ''MEFS_PRIVATE_KEY'' = Some k \<and> take 2 k = ''0x''"
  then have "\<not> (\<exists>k'. getSetting rt ''MEFS_PRIVATE_KEY'' = Some k' \<and> length k' = 64 \<and> list_all is_hex k')"
    using prefixed_not_hex by auto
  then obtain i where "(''MEFS_PRIVATE_KEY'', i) \<in> set (schema_issues env
      (or_default (getSetting rt ''MEFS_API_URL'') ''https://api.mefs.io:10000/produce'')
      (getSetting rt ''MEFS_PRIVATE_KEY'')
      (case getSetting rt ''MEFS_CHAIN_ID'' of None \<Rightarrow> Some 985
       | Some s \<Rightarrow> if s = [] then Some 985 else parseInt env s)
      (or_default (getSetting rt ''MEFS_ORIGIN'') ''https://memo.io''))"
    using key_issue_iff by blast
  then show "\<exists>msg. validateStorageClientConfig env rt =
         Inl (Error (''Storage client configuration validation failed:'' @ newline @ msg))"
    by (rule validate_issue)
next
  show "privateKeyToAddress env k =
     (if k = [] then Inl (Error ''Private key cannot be empty'')
      else if strip0x k = [] \<or> \<not> list_all is_hex (strip0x k)
      then Inl (Error ''Invalid hex format for private key'')
      else (case walletAddress env (''0x'' @ strip0x k) of
              Inl (Error msg) \<Rightarrow>
                Inl (Error (''Failed to convert private key to address: '' @ msg))
            | Inr address \<Rightarrow> Inr address))"
    by (simp add: privateKeyToAddress_def strip0x_def match_plus_iff in_hex_classes list_all_iff
          Let_def)
qed

lemma demo_validates: "validateStorageClientConfig demo_env demo_runtime = Inr demo_config"
  by (simp add: demo_defs validateStorageClientConfig_def schema_issues_def
        privateKeyToAddress_def or_default_def match_exactly_iff match_plus_iff
        in_hex_classes is_hex_def)

theorem key_validation_witness:
  "validateStorageClientConfig demo_env demo_runtime = Inr demo_config \<and>
   getSetting demo_runtime ''MEFS_PRIVATE_KEY'' = Some demo_key \<and>
   length demo_key = 64 \<and> list_all is_hex demo_key \<and>
   getSetting demo_prefixed_runtime ''MEFS_PRIVATE_KEY'' = Some (''0x'' @ demo_key) \<and>
   take 2 (''0x'' @ demo_key) = ''0x'' \<and>
   (\<exists>msg. validateStorageClientConfig demo_env demo_prefixed_runtime =
      Inl (Error (''Storage client configuration validation failed:'' @ newline @ msg))) \<and>
   privateKeyToAddress demo_env (''0x'' @ demo_key) = Inr ''0xAddr'' \<and>
   privateKeyToAddress demo_env ''0xabc'' =
     Inl (Error ''Failed to convert private key to address: invalid private key'') \<and>
   privateKeyToAddress demo_env ''xyz'' = Inl (Error ''Invalid hex format for private key'')"
  using key_validation [of demo_env _ _ _ _ demo_runtime demo_config demo_key]
    key_validation [of demo_env _ _ _ _ demo_prefixed_runtime demo_config "''0x'' @ demo_key"]
    key_validation [of demo_env _ _ _ _ demo_runtime demo_config "''0xabc''"]
    key_validation [of demo_env _ _ _ _ demo_runtime demo_config "''xyz''"]
    demo_validates
  by (simp add: demo_defs strip0x_def is_hex_def)

text \<open>
  The claim as stated fails on a key with the prefix: what follows \<open>0x\<close> matches
  the 64-digit pattern, and the validation of the configuration rejects the key.
\<close>

theorem prefixed_key_counterexample:
  "match_exactly schema_hex_class 64 (strip0x (''0x'' @ demo_key)) \<and>
   getSetting demo_prefixed_runtime ''MEFS_PRIVATE_KEY'' = Some (''0x'' @ demo_key) \<and>
   validateStorageClientConfig demo_env demo_prefixed_runtime =
     Inl (Error (''Storage client configuration validation failed:'' @ newline @
                 ''MEFS_PRIVATE_KEY: Invalid''))"
  by (simp add: demo_defs validateStorageClientConfig_def schema_issues_def
        or_default_def match_exactly_iff in_hex_classes is_hex_def strip0x_def)

section \<open>Requests to the store\<close>

lemma login_requests_not_storage:
  "\<not> storageRequest c (challengeRequest c)" "\<not> storageRequest c (loginRequest c ch sg)"
  by (simp_all add: storageRequest_def challengeRequest_def loginRequest_def)

lemma storage_requests:
  "storageRequest c (uploadRequest c impl hdrs form)" "storageRequest c (retrieveRequest c hdrs cid k)"
  by (simp_all add: storageRequest_def uploadRequest_def retrieveRequest_def)

lemma challenge_is_not_login: "challengeRequest c \<noteq> loginRequest c' ch sg"
  by (simp add: challengeRequest_def loginRequest_def)

lemma loginIfNoToken_not_storage:
  assumes "mefsConfig (svc m) = Some c" and "loginIfNoToken env m = (lr, m1)"
  shows "\<exists>ex. exchanges m1 = exchanges m @ ex \<and> (\<forall>(rq, rs) \<in> set ex. \<not> storageRequest c rq)"
proof -
  from loginIfNoToken_exchanges [OF assms] obtain ex where
    ex: "exchanges m1 = exchanges m @ ex"
    and exl: "\<forall>(rq, rs) \<in> set ex. rq = challengeRequest c \<or> (\<exists>ch sg. rq = loginRequest c ch sg)"
    by blast
  from exl have "\<forall>(rq, rs) \<in> set ex. \<not> storageRequest c rq"
    using login_requests_not_storage by fastforce
  with ex show ?thesis by blast
qed

lemma digit_char_inj: "a < 10 \<Longrightarrow> b < 10 \<Longrightarrow> digit_char a = digit_char b \<Longrightarrow> a = b"
proof -
  assume "a < 10" "b < 10" and e: "digit_char a = digit_char b"
  have d: "distinct ''0123456789''" by simp
  have "a < length ''0123456789''" "b < length ''0123456789''"
    using \<open>a < 10\<close> \<open>b < 10\<close> by simp_all
  with d e show "a = b"
    unfolding digit_char_def by (simp only: nth_eq_iff_index_eq)
qed

lemma digit_char_not_space: "d < 10 \<Longrightarrow> CHR '' '' \<noteq> digit_char d"
proof -
  assume "d < 10"
  then have "d < length ''0123456789''" by simp
  then have "''0123456789'' ! d \<in> set ''0123456789''" by (rule nth_mem)
  then show ?thesis unfolding digit_char_def by auto
qed

lemma split_at_first:
  "x \<notin> set xs \<Longrightarrow> x \<notin> set xs' \<Longrightarrow> xs @ x # ys = xs' @ x # ys' \<Longrightarrow> xs = xs' \<and> ys = ys'"
proof (induction xs arbitrary: xs')
  case Nil
  then show ?case by (cases xs') auto
next
  case (Cons a xs)
  then show ?case by (cases xs') auto
qed

lemma show_nat_no_space: "CHR '' '' \<notin> set (show_nat n)"
proof (induction n rule: show_nat.induct)
  case (1 n)
  show ?case
  proof (cases "n < 10")
    case True
    then show ?thesis by (simp add: show_nat.simps [of n] digit_char_not_space)
  next
    case False
    with "1" show ?thesis
      by (simp add: show_nat.simps [of n] digit_char_not_space)
  qed
qed

lemma show_nat_length: "length (show_nat n) = 1 \<longleftrightarrow> n < 10"
  by (subst show_nat.simps, cases "n div 10 < 10") (simp_all add: show_nat.simps [of "n div 10"])

lemma show_nat_inj: "show_nat a = show_nat b \<Longrightarrow> a = b"
proof (induction a arbitrary: b rule: show_nat.induct)
  case (1 n)
  from "1.prems" have l: "n < 10 \<longleftrightarrow> b < 10"
    using show_nat_length [of n] show_nat_length [of b] by simp
  show ?case
  proof (cases "n < 10")
    case True
    with l "1.prems" show ?thesis
      by (simp add: show_nat.simps [of n] show_nat.simps [of b] digit_char_inj)
  next
    case False
    with l "1.prems" have "show_nat (n div 10) = show_nat (b div 10)"
      and "digit_char (n mod 10) = digit_char (b mod 10)"
      by (simp_all add: show_nat.simps [of n] show_nat.simps [of b])
    with "1.IH" False have "n div 10 = b div 10" "n mod 10 = b mod 10"
      by (auto intro: digit_char_inj)
    then show ?thesis by (metis div_mult_mod_eq)
  qed
qed

lemma status_and_body_readable:
  assumes "pre @ show_nat s @ '' '' @ body = pre @ show_nat s' @ '' '' @ body'"
  shows "s = s' \<and> body = body'"
proof -
  from assms have "show_nat s @ CHR '' '' # body = show_nat s' @ CHR '' '' # body'" by simp
  with show_nat_no_space [of s] show_nat_no_space [of s']
  have "show_nat s = show_nat s' \<and> body = body'" by (rule split_at_first)
  then show ?thesis by (auto dest: show_nat_inj)
qed

text \<open>
  Claim C9. Whenever a request \<open>uploadFile\<close> or \<open>retrieveFile\<close> sent to the store was
  answered with a status outside 200..299, the call fails, and the error it gives to
  its caller is \<open>Failed to upload file:\<close> (or \<open>Failed to retrieve file:\<close>) followed by
  that status and that response body. The status and the body can be read back from
  such a message: two messages with the same beginning are equal only if they carry
  the same status and the same body.
\<close>

theorem non2xx_reported:
  assumes "mefsConfig (svc m) = Some c"
  shows "(((rq, Response rsp) \<in> set (new_exchanges m
                (snd (uploadFile env m buffer filename publicFile key))) \<and>
             storageRequest c rq \<and> \<not> ok rsp \<longrightarrow>
             fst (uploadFile env m buffer filename publicFile key) =
               Inl (Error (''Failed to upload file: '' @ show_nat (status rsp) @ '' '' @ respBody rsp)))
          \<and> ((rq, Response rsp) \<in> set (new_exchanges m (snd (retrieveFile env m cid rkey))) \<and>
             storageRequest c rq \<and> \<not> ok rsp \<longrightarrow>
             fst (retrieveFile env m cid rkey) =
               Inl (Error (''Failed to retrieve file: '' @ show_nat (status rsp) @ '' '' @ respBody rsp))))
       \<and> (\<forall>pre s bd s' bd'.
            pre @ show_nat s @ '' '' @ bd = pre @ show_nat s' @ '' '' @ bd' \<longrightarrow>
            s = s' \<and> bd = bd')"
proof -
  have main: "((rq, Response rsp) \<in> set (new_exchanges m
             (snd (uploadFile env m buffer filename publicFile key))) \<and>
          storageRequest c rq \<and> \<not> ok rsp \<longrightarrow>
          fst (uploadFile env m buffer filename publicFile key) =
            Inl (Error (''Failed to upload file: '' @ show_nat (status rsp) @ '' '' @ respBody rsp)))
       \<and> ((rq, Response rsp) \<in> set (new_exchanges m (snd (retrieveFile env m cid rkey))) \<and>
          storageRequest c rq \<and> \<not> ok rsp \<longrightarrow>
          fst (retrieveFile env m cid rkey) =
            Inl (Error (''Failed to retrieve file: '' @ show_nat (status rsp) @ '' '' @ respBody rsp)))"
  proof (intro conjI impI)
    obtain lr m1 where lg: "loginIfNoToken env m = (lr, m1)"
      by (cases "loginIfNoToken env m")
    from loginIfNoToken_not_storage [OF assms lg] obtain ex where
      ex: "exchanges m1 = exchanges m @ ex" and ns: "\<forall>(rq, rs) \<in> set ex. \<not> storageRequest c rq"
      by blast
    {
      obtain res m' where up: "uploadFile env m buffer filename publicFile key = (res, m')"
        by (cases "uploadFile env m buffer filename publicFile key")
      assume h: "(rq, Response rsp) \<in> set (new_exchanges m
               (snd (uploadFile env m buffer filename publicFile key))) \<and>
            storageRequest c rq \<and> \<not> ok rsp"
      from uploadFile_cases [OF assms up lg] consider
        (aborted) "m' = m1"
      | (sent) t r where "exchanges m' = exchanges m1 @
                 [(uploadRequest c (formDataImpl env) [(''Authorization'', ''Bearer '' @ t)]
                     (uploadForm (formDataImpl env) buffer filename publicFile key), r)]"
          "case r of NetworkError msg \<Rightarrow> res = Inl (Error msg)
                | Response rsp \<Rightarrow>
                    if \<not> ok rsp
                    then res = Inl (Error (''Failed to upload file: '' @ show_nat (status rsp) @ '' '' @ respBody rsp))
                    else (case jsonParse env (respBody rsp) of
                            Inl e \<Rightarrow> res = Inl e
                          | Inr j \<Rightarrow> res = Inr (map_of j ''Mid''))"
        by blast
      then show "fst (uploadFile env m buffer filename publicFile key) =
              Inl (Error (''Failed to upload file: '' @ show_nat (status rsp) @ '' '' @ respBody rsp))"
      proof cases
        case aborted
        with ex have "new_exchanges m m' = ex" by (simp add: new_exchanges_append)
        with h up ns show ?thesis by auto
      next
        case sent
        with ex have "new_exchanges m m' = ex @
                 [(uploadRequest c (formDataImpl env) [(''Authorization'', ''Bearer '' @ t)]
                     (uploadForm (formDataImpl env) buffer filename publicFile key), r)]"
          by (simp add: new_exchanges_append)
        with h up ns have "r = Response rsp" by auto
        with sent(2) h up show ?thesis by simp
      qed
    }
    {
      obtain res m' where rt: "retrieveFile env m cid rkey = (res, m')"
        by (cases "retrieveFile env m cid rkey")
      assume h: "(rq, Response rsp) \<in> set (new_exchanges m (snd (retrieveFile env m cid rkey))) \<and>
            storageRequest c rq \<and> \<not> ok rsp"
      from retrieveFile_cases [OF assms rt lg] consider
        (aborted) "m' = m1"
      | (sent) t r where "exchanges m' = exchanges m1 @
                 [(retrieveRequest c [(''Authorization'', ''Bearer '' @ t)] cid rkey, r)]"
          "case r of NetworkError msg \<Rightarrow> res = Inl (Error msg)
                | Response rsp \<Rightarrow>
                    if \<not> ok rsp
                    then res = Inl (Error (''Failed to retrieve file: '' @ show_nat (status rsp) @ '' '' @ respBody rsp))
                    else res = Inr (respBody rsp)"
        by blast
      then show "fst (retrieveFile env m cid rkey) =
              Inl (Error (''Failed to retrieve file: '' @ show_nat (status rsp) @ '' '' @ respBody rsp))"
      proof cases
        case aborted
        with ex have "new_exchanges m m' = ex" by (simp add: new_exchanges_append)
        with h rt ns show ?thesis by auto
      next
        case sent
        with ex have "new_exchanges m m' = ex @
                 [(retrieveRequest c [(''Authorization'', ''Bearer '' @ t)] cid rkey, r)]"
          by (simp add: new_exchanges_append)
        with h rt ns have "r = Response rsp" by auto
        with sent(2) h rt show ?thesis by simp
      qed
    }
  qed
  have readable: "\<forall>pre s bd s' bd'.
            pre @ show_nat s @ '' '' @ bd = pre @ show_nat s' @ '' '' @ bd' \<longrightarrow>
            s = s' \<and> bd = bd'"
    using status_and_body_readable by blast
  from main readable show ?thesis by (rule conjI)
qed

theorem non2xx_reported_witness:
  "mefsConfig (svc demo_stale) = Some demo_config \<and>
   (uploadRequest demo_config GlobalFormData [(''Authorization'', ''Bearer old'')]
      (uploadForm GlobalFormData ''HI'' ''hi.txt'' False None),
    Response \<lparr>status = 401, respBody = ''unauthorized''\<rparr>)
     \<in> set (new_exchanges demo_stale
              (snd (uploadFile demo_env demo_stale ''HI'' ''hi.txt'' False None))) \<and>
   storageRequest demo_config
     (uploadRequest demo_config GlobalFormData [(''Authorization'', ''Bearer old'')]
        (uploadForm GlobalFormData ''HI'' ''hi.txt'' False None)) \<and>
   \<not> ok \<lparr>status = 401, respBody = ''unauthorized''\<rparr> \<and>
   fst (uploadFile demo_env demo_stale ''HI'' ''hi.txt'' False None) =
     Inl (Error ''Failed to upload file: 401 unauthorized'') \<and>
   mefsConfig (svc demo_ready) = Some demo_config \<and>
   (retrieveRequest demo_config [(''Authorization'', ''Bearer tok1'')] ''bafyNO'' None,
    Response \<lparr>status = 404, respBody = ''not found''\<rparr>)
     \<in> set (new_exchanges demo_ready (snd (retrieveFile demo_env demo_ready ''bafyNO'' None))) \<and>
   storageRequest demo_config
     (retrieveRequest demo_config [(''Authorization'', ''Bearer tok1'')] ''bafyNO'' None) \<and>
   \<not> ok \<lparr>status = 404, respBody = ''not found''\<rparr> \<and>
   fst (retrieveFile demo_env demo_ready ''bafyNO'' None) =
     Inl (Error ''Failed to retrieve file: 404 not found'')"
proof -
  have stale: "mefsConfig (svc demo_stale) = Some demo_config"
    and ready: "mefsConfig (svc demo_ready) = Some demo_config"
    by (simp_all add: demo_defs)
  note upload = non2xx_reported [of demo_stale demo_config
      "uploadRequest demo_config GlobalFormData [(''Authorization'', ''Bearer old'')]
        (uploadForm GlobalFormData ''HI'' ''hi.txt'' False None)"
      "\<lparr>status = 401, respBody = ''unauthorized''\<rparr>" demo_env "''HI''" "''hi.txt''" False None
      "''bafyNO''" None, OF stale, THEN conjunct1, THEN conjunct1]
  note retrieve = non2xx_reported [of demo_ready demo_config
      "retrieveRequest demo_config [(''Authorization'', ''Bearer tok1'')] ''bafyNO'' None"
      "\<lparr>status = 404, respBody = ''not found''\<rparr>" demo_env "''HI''" "''hi.txt''" False None
      "''bafyNO''" None, OF ready, THEN conjunct1, THEN conjunct2]
  from upload retrieve show ?thesis
    by (simp add: service_defs demo_defs storageRequest_def)
qed

section \<open>The login protocol\<close>

lemma login_starts_with_challenge:
  assumes "mefsConfig (svc m) = Some c"
  shows "\<exists>r rest. new_exchanges m (snd (loginToMEFS env m)) = (challengeRequest c, r) # rest"
proof -
  obtain res m' where lg: "loginToMEFS env m = (res, m')" by (cases "loginToMEFS env m")
  from loginToMEFS_cases [OF assms lg] show ?thesis
    by (auto simp: lg dest!: new_exchanges_append)
qed

text \<open>
  Claim C4. If, during \<open>loginToMEFS\<close>, the challenge request or the login exchange is
  answered with a status outside 200..299, then the call fails (with
  \<open>Failed to get challenge:\<close> or \<open>Failed to login:\<close>, the status and the body), the
  service is exactly as before (so neither token is modified), and a following call
  of \<open>loginToMEFS\<close> starts again with the challenge request.
\<close>

theorem login_failure_keeps_session:
  assumes "mefsConfig (svc m) = Some c"
    and "(rq, Response rsp) \<in> set (new_exchanges m (snd (loginToMEFS env m)))"
    and "\<not> ok rsp"
  shows "fst (loginToMEFS env m) =
           Inl (Error ((if rq = challengeRequest c then ''Failed to get challenge: ''
                        else ''Failed to login: '') @
                       show_nat (status rsp) @ '' '' @ respBody rsp)) \<and>
         svc (snd (loginToMEFS env m)) = svc m \<and>
         (\<exists>r rest. new_exchanges (snd (loginToMEFS env m))
                     (snd (loginToMEFS env (snd (loginToMEFS env m)))) =
                   (challengeRequest c, r) # rest)"
proof -
  obtain res m' where lg: "loginToMEFS env m = (res, m')" by (cases "loginToMEFS env m")
  from loginToMEFS_cases [OF assms(1) lg] consider
    (challenge) r1 where "exchanges m' = exchanges m @ [(challengeRequest c, r1)]" "svc m' = svc m"
        "\<forall>rsp. r1 = Response rsp \<and> \<not> ok rsp \<longrightarrow>
           res = Inl (Error (''Failed to get challenge: '' @ show_nat (status rsp) @ '' '' @ respBody rsp))"
  | (login) r1 sg r2 where "exchanges m' = exchanges m @
              [(challengeRequest c, Response r1), (loginRequest c (respBody r1) sg, r2)]" "ok r1"
        "case res of
           Inl e \<Rightarrow> svc m' = svc m \<and>
             (\<forall>rsp. r2 = Response rsp \<and> \<not> ok rsp \<longrightarrow>
                e = Error (''Failed to login: '' @ show_nat (status rsp) @ '' '' @ respBody rsp))
         | Inr u \<Rightarrow> (\<exists>rsp j. r2 = Response rsp \<and> ok rsp \<and> jsonParse env (respBody rsp) = Inr j \<and>
             svc m' = (svc m)\<lparr>accessToken := map_of j ''accessToken'',
                                refreshToken := map_of j ''refreshToken''\<rparr>)"
    by blast
  then have main: "res = Inl (Error ((if rq = challengeRequest c then ''Failed to get challenge: ''
                        else ''Failed to login: '') @
                       show_nat (status rsp) @ '' '' @ respBody rsp)) \<and> svc m' = svc m"
  proof cases
    case challenge
    from challenge(1) have "new_exchanges m m' = [(challengeRequest c, r1)]"
      by (rule new_exchanges_append)
    with assms(2) lg have "rq = challengeRequest c" "r1 = Response rsp" by auto
    with challenge assms(3) show ?thesis by simp
  next
    case login
    from login(1) have "new_exchanges m m' =
        [(challengeRequest c, Response r1), (loginRequest c (respBody r1) sg, r2)]"
      by (rule new_exchanges_append)
    with assms(2,3) lg login(2) have "rq = loginRequest c (respBody r1) sg" "r2 = Response rsp"
      by auto
    with login(3) assms(3) show ?thesis
      by (cases res) (auto simp: challenge_is_not_login [symmetric])
  qed
  then have "mefsConfig (svc m') = Some c" using assms(1) by simp
  from login_starts_with_challenge [OF this, of env] main lg show ?thesis by simp
qed

theorem login_failure_keeps_session_witness:
  "mefsConfig (svc demo_chain1) = Some (demo_config\<lparr>MEFS_CHAIN_ID := 1\<rparr>) \<and>
   (challengeRequest (demo_config\<lparr>MEFS_CHAIN_ID := 1\<rparr>),
    Response \<lparr>status = 400, respBody = ''unknown chain''\<rparr>)
     \<in> set (new_exchanges demo_chain1 (snd (loginToMEFS demo_env demo_chain1))) \<and>
   \<not> ok \<lparr>status = 400, respBody = ''unknown chain''\<rparr> \<and>
   fst (loginToMEFS demo_env demo_chain1) =
     Inl (Error ''Failed to get challenge: 400 unknown chain'') \<and>
   svc (snd (loginToMEFS demo_env demo_chain1)) = svc demo_chain1 \<and>
   (loginRequest (demo_config\<lparr>MEFS_PRIVATE_KEY :=
        ''bbbbbbbbbbbbbbbbbbbbbbbbbbbbbbbbbbbbbbbbbbbbbbbbbbbbbbbbbbbbbbbb''\<rparr>)
      ''sign-this-xyz'' ''0xforged'',
    Response \<lparr>status = 401, respBody = ''bad signature''\<rparr>)
     \<in> set (new_exchanges demo_wrongkey (snd (loginToMEFS demo_env demo_wrongkey))) \<and>
   \<not> ok \<lparr>status = 401, respBody = ''bad signature''\<rparr> \<and>
   fst (loginToMEFS demo_env demo_wrongkey) = Inl (Error ''Failed to login: 401 bad signature'') \<and>
   svc (snd (loginToMEFS demo_env demo_wrongkey)) = svc demo_wrongkey"
  using login_failure_keeps_session [of demo_chain1 "demo_config\<lparr>MEFS_CHAIN_ID := 1\<rparr>"
      "challengeRequest (demo_config\<lparr>MEFS_CHAIN_ID := 1\<rparr>)"
      "\<lparr>status = 400, respBody = ''unknown chain''\<rparr>" demo_env]
    login_failure_keeps_session [of demo_wrongkey
      "demo_config\<lparr>MEFS_PRIVATE_KEY :=
         ''bbbbbbbbbbbbbbbbbbbbbbbbbbbbbbbbbbbbbbbbbbbbbbbbbbbbbbbbbbbbbbbb''\<rparr>"
      "loginRequest (demo_config\<lparr>MEFS_PRIVATE_KEY :=
         ''bbbbbbbbbbbbbbbbbbbbbbbbbbbbbbbbbbbbbbbbbbbbbbbbbbbbbbbbbbbbbbbb''\<rparr>)
         ''sign-this-xyz'' ''0xforged''"
      "\<lparr>status = 401, respBody = ''bad signature''\<rparr>" demo_env]
  by (simp add: service_defs demo_defs)

section \<open>Authentication of the requests to the store\<close>

lemma bearer_of_auth:
  "bearerToken (uploadRequest c impl [(''Authorization'', ''Bearer '' @ t)] form) = Some t"
  "bearerToken (retrieveRequest c [(''Authorization'', ''Bearer '' @ t)] cid k) = Some t"
  by (simp_all add: bearerToken_def uploadRequest_def retrieveRequest_def uploadHeaders_def
        spread_def split: formdata_impl.splits)

lemma login_success_completed:
  assumes "mefsConfig (svc m) = Some c" and "loginToMEFS env m = (Inr u, m1)"
  shows "completedLogin c (new_exchanges m m1)"
  using loginToMEFS_cases [OF assms]
  by (auto simp: completedLogin_def dest!: new_exchanges_append)

lemma authenticatedCall_intro:
  assumes cfg: "mefsConfig (svc m) = Some c"
    and lg: "loginIfNoToken env m = (lr, m1)"
    and cases: "(m' = m1 \<and> (\<exists>e. res = Inl e) \<and>
                   (lr = Inl (projl res) \<or> lr = Inr () \<and>
                      (truthy (accessToken (svc m1)) \<or> res = Inl refusal)))
       \<or> (\<exists>t r rq. lr = Inr () \<and> accessToken (svc m1) = Some t \<and> t \<noteq> [] \<and>
             exchanges m' = exchanges m1 @ [(rq, r)] \<and> storageRequest c rq \<and> bearerToken rq = Some t)"
  shows "authenticatedCall env m c refusal (res, m')"
proof -
  from loginIfNoToken_not_storage [OF cfg lg] obtain ex where
    ex: "exchanges m1 = exchanges m @ ex" and ns: "\<forall>(rq, rs) \<in> set ex. \<not> storageRequest c rq"
    by blast
  from ex have nex: "new_exchanges m m1 = ex" by (rule new_exchanges_append)
  from cases consider
    (aborted) "m' = m1" "\<exists>e. res = Inl e"
       "lr = Inl (projl res) \<or> lr = Inr () \<and>
                      (truthy (accessToken (svc m1)) \<or> res = Inl refusal)"
  | (sent) t r rq where "lr = Inr ()" "accessToken (svc m1) = Some t" "t \<noteq> []"
       "exchanges m' = exchanges m1 @ [(rq, r)]" "storageRequest c rq" "bearerToken rq = Some t"
    by blast
  then show ?thesis
  proof cases
    case aborted
    have 1: "\<forall>(rq, rs) \<in> set (new_exchanges m m'). storageRequest c rq \<longrightarrow> (\<exists>t. bearerToken rq = Some t \<and> t \<noteq> [])"
      using aborted(1) nex ns by auto
    have 2: "case loginToMEFS env m of
            (Inl e, m1) \<Rightarrow> (res, m') = (Inl e, m1)
          | (Inr u, m1) \<Rightarrow>
              completedLogin c (new_exchanges m m1) \<and>
              (if truthy (accessToken (svc m1))
               then snd (res, m') = m1 \<or>
                    (\<exists>rq rs. storageRequest c rq \<and>
                       new_exchanges m (snd (res, m')) = new_exchanges m m1 @ [(rq, rs)])
               else (res, m') = (Inl refusal, m1))"
      if nt: "\<not> truthy (accessToken (svc m))"
    proof -
      from nt lg have l: "loginToMEFS env m = (lr, m1)" by (simp add: loginIfNoToken_def)
      show ?thesis
      proof (cases lr)
        case (Inl e)
        with aborted l show ?thesis by auto
      next
        case (Inr u)
        with l login_success_completed [OF cfg, of env u m1] aborted show ?thesis
          by auto
      qed
    qed
    from 1 2 show ?thesis by (simp add: authenticatedCall_def)
  next
    case sent
    from sent(4) ex have nex': "new_exchanges m m' = ex @ [(rq, r)]"
      by (simp add: new_exchanges_append)
    have 1: "\<forall>(rq, rs) \<in> set (new_exchanges m m'). storageRequest c rq \<longrightarrow> (\<exists>t. bearerToken rq = Some t \<and> t \<noteq> [])"
      using nex' ns sent by auto
    have 2: "case loginToMEFS env m of
            (Inl e, m1) \<Rightarrow> (res, m') = (Inl e, m1)
          | (Inr u, m1) \<Rightarrow>
              completedLogin c (new_exchanges m m1) \<and>
              (if truthy (accessToken (svc m1))
               then snd (res, m') = m1 \<or>
                    (\<exists>rq rs. storageRequest c rq \<and>
                       new_exchanges m (snd (res, m')) = new_exchanges m m1 @ [(rq, rs)])
               else (res, m') = (Inl refusal, m1))"
      if nt: "\<not> truthy (accessToken (svc m))"
    proof -
      from nt lg have l: "loginToMEFS env m = (lr, m1)" by (simp add: loginIfNoToken_def)
      with sent login_success_completed [OF cfg, of env "()" m1] nex nex' show ?thesis
        by (auto simp: truthy_def)
    qed
    from 1 2 show ?thesis by (simp add: authenticatedCall_def)
  qed
qed

lemma uploadFile_refusal:
  assumes "mefsConfig (svc m) = Some c" and "uploadFile env m b f p k = (res, m')"
    and "loginIfNoToken env m = (Inr (), m1)" and "\<not> truthy (accessToken (svc m1))"
  shows "res = Inl (uploadRefusal env)"
  using assms unfolding uploadFile_def uploadRefusal_def
  by (auto simp: getAuthHeaders_Inr getAuthHeaders_Inl truthy_def split: if_splits sum.splits)

text \<open>
  Claim C2, as amended. For a configured service, every request \<open>uploadFile\<close> or
  \<open>retrieveFile\<close> sends to the store carries an \<open>Authorization\<close> header with a
  non-empty bearer token. If no token is held when the call starts, the call first
  runs \<open>loginToMEFS\<close>: a failed login ends the call with its error, and a request to
  the store is sent only after a completed login (challenge and exchange both
  answered 2xx). If no token is held after a successful login, the call fails
  without sending anything more: \<open>retrieveFile\<close> with \<open>Not authenticated\<close>, and
  \<open>uploadFile\<close> with \<open>Not authenticated\<close> unless no \<open>FormData\<close> implementation is
  available, in which case with the error of that earlier check.
\<close>

theorem storage_requests_authenticated:
  assumes "mefsConfig (svc m) = Some c"
  shows "authenticatedCall env m c (uploadRefusal env)
           (uploadFile env m buffer filename publicFile key) \<and>
         authenticatedCall env m c (Error ''Not authenticated. Please initialize storage first.'')
           (retrieveFile env m cid rkey)"
proof
  obtain lr m1 where lg: "loginIfNoToken env m = (lr, m1)"
    by (cases "loginIfNoToken env m")
  obtain res m' where up: "uploadFile env m buffer filename publicFile key = (res, m')"
    by (cases "uploadFile env m buffer filename publicFile key")
  from uploadFile_cases [OF assms up lg] consider
    (aborted) "m' = m1" "\<exists>e. res = Inl e" "lr = Inl (projl res) \<or> lr = Inr ()"
  | (sent) t r where "lr = Inr ()" "accessToken (svc m1) = Some t" "t \<noteq> []"
      "exchanges m' = exchanges m1 @
         [(uploadRequest c (formDataImpl env) [(''Authorization'', ''Bearer '' @ t)]
             (uploadForm (formDataImpl env) buffer filename publicFile key), r)]"
    by blast
  then have "authenticatedCall env m c (uploadRefusal env) (res, m')"
  proof cases
    case aborted
    from aborted(3) uploadFile_refusal [OF assms up, of m1] lg
    have "lr = Inl (projl res) \<or> lr = Inr () \<and>
            (truthy (accessToken (svc m1)) \<or> res = Inl (uploadRefusal env))"
      by blast
    with aborted show ?thesis
      by (intro authenticatedCall_intro [OF assms lg]) blast
  next
    case sent
    then show ?thesis
      using storage_requests(1) bearer_of_auth(1)
      by (intro authenticatedCall_intro [OF assms lg]) blast
  qed
  with up show "authenticatedCall env m c (uploadRefusal env)
      (uploadFile env m buffer filename publicFile key)"
    by simp
  obtain res2 m2 where rt: "retrieveFile env m cid rkey = (res2, m2)"
    by (cases "retrieveFile env m cid rkey")
  from retrieveFile_cases [OF assms rt lg] consider
    (aborted) "m2 = m1" "\<exists>e. res2 = Inl e"
       "lr = Inl (projl res2) \<or> lr = Inr () \<and>
          res2 = Inl (Error ''Not authenticated. Please initialize storage first.'')"
  | (sent) t r where "lr = Inr ()" "accessToken (svc m1) = Some t" "t \<noteq> []"
      "exchanges m2 = exchanges m1 @
         [(retrieveRequest c [(''Authorization'', ''Bearer '' @ t)] cid rkey, r)]"
    by blast
  then have "authenticatedCall env m c
      (Error ''Not authenticated. Please initialize storage first.'') (res2, m2)"
  proof cases
    case aborted
    then show ?thesis
      by (intro authenticatedCall_intro [OF assms lg]) blast
  next
    case sent
    then show ?thesis
      using storage_requests(2) bearer_of_auth(2)
      by (intro authenticatedCall_intro [OF assms lg]) blast
  qed
  with rt show "authenticatedCall env m c
      (Error ''Not authenticated. Please initialize storage first.'') (retrieveFile env m cid rkey)"
    by simp
qed


theorem storage_requests_authenticated_witness:
  "mefsConfig (svc demo_unauth) = Some demo_config \<and>
   \<not> truthy (accessToken (svc demo_unauth)) \<and>
   authenticatedCall demo_env demo_unauth demo_config (uploadRefusal demo_env)
     (uploadFile demo_env demo_unauth ''HI'' ''hi.txt'' False None) \<and>
   authenticatedCall demo_env demo_unauth demo_config
     (Error ''Not authenticated. Please initialize storage first.'')
     (retrieveFile demo_env demo_unauth ''bafyNO'' None) \<and>
   map (\<lambda>(rq, rs). (storageRequest demo_config rq, bearerToken rq))
     (new_exchanges demo_unauth
        (snd (uploadFile demo_env demo_unauth ''HI'' ''hi.txt'' False None))) =
     [(False, None), (False, None), (True, Some ''tok1'')]"
  using storage_requests_authenticated [of demo_unauth demo_config demo_env
      "''HI''" "''hi.txt''" False None "''bafyNO''" None]
  by (simp add: service_defs demo_defs storageRequest_def bearerToken_def)

text \<open>
  The claim as stated fails where no \<open>FormData\<close> implementation is available and the
  login answers 2xx without a token: \<open>uploadFile\<close> then fails with the error of the
  \<open>FormData\<close> check, not with \<open>Not authenticated\<close>.
\<close>

theorem upload_without_token_counterexample:
  "fst (loginToMEFS tokenless_env demo_unauth) = Inr () \<and>
   \<not> truthy (accessToken (svc (snd (loginToMEFS tokenless_env demo_unauth)))) \<and>
   fst (uploadFile tokenless_env demo_unauth ''HI'' ''hi.txt'' False None) =
     Inl (Error ''FormData is not available. Please install 'form-data' package or use Node.js 18+'') \<and>
   fst (uploadFile tokenless_env demo_unauth ''HI'' ''hi.txt'' False None) \<noteq>
     Inl (Error ''Not authenticated. Please initialize storage first.'')"
  by (simp add: service_defs demo_defs)

section \<open>Stopping the service and rejected requests\<close>

lemma loginIfNoToken_with_token:
  "truthy (accessToken (svc m)) \<Longrightarrow> loginIfNoToken env m = (Inr (), m)"
  by (simp add: loginIfNoToken_def)

lemma call_with_token_keeps_service:
  assumes "mefsConfig (svc m) = Some c" and "truthy (accessToken (svc m))"
  shows "svc (snd (uploadFile env m b f p k)) = svc m"
    and "svc (snd (retrieveFile env m cid rk)) = svc m"
proof -
  note lg = loginIfNoToken_with_token [OF assms(2), of env]
  obtain res m' where up: "uploadFile env m b f p k = (res, m')"
    by (cases "uploadFile env m b f p k")
  from uploadFile_cases [OF assms(1) up lg] have "svc m' = svc m" by auto
  with up show "svc (snd (uploadFile env m b f p k)) = svc m" by simp
  obtain res2 m2 where rt: "retrieveFile env m cid rk = (res2, m2)"
    by (cases "retrieveFile env m cid rk")
  from retrieveFile_cases [OF assms(1) rt lg] have "svc m2 = svc m" by auto
  with rt show "svc (snd (retrieveFile env m cid rk)) = svc m" by simp
qed

text \<open>
  Claim C3, as amended. \<open>stop\<close> clears the validated configuration and nothing else:
  the access token and the refresh token stay. After it, \<open>uploadFile\<close> and
  \<open>retrieveFile\<close> fail with \<open>Storage config not initialized\<close> and send nothing, and
  \<open>initializeStorage\<close>, when the configuration validates again, is a full login on
  the new configuration. No answer of the remote store to an upload or a retrieval,
  a rejection included, changes the service: a call made with a token leaves the
  configuration and both tokens as they were.
\<close>

theorem stop_clears_configuration_only:
  "accessToken (svc (stop m)) = accessToken (svc m) \<and>
   refreshToken (svc (stop m)) = refreshToken (svc m) \<and>
   mefsConfig (svc (stop m)) = None \<and>
   uploadFile env (stop m) buffer filename publicFile key =
     (Inl (Error ''Storage config not initialized''), stop m) \<and>
   retrieveFile env (stop m) cid rkey =
     (Inl (Error ''Storage config not initialized''), stop m) \<and>
   (runtime (svc m) = Some rt \<and> validateStorageClientConfig env rt = Inr cfg \<longrightarrow>
      initializeStorage env (stop m) =
        loginToMEFS env (m\<lparr>svc := (svc m)\<lparr>mefsConfig := Some cfg\<rparr>\<rparr>)) \<and>
   (mefsConfig (svc m) = Some c \<and> truthy (accessToken (svc m)) \<longrightarrow>
      svc (snd (uploadFile env m buffer filename publicFile key)) = svc m \<and>
      svc (snd (retrieveFile env m cid rkey)) = svc m)"
proof (intro conjI impI)
  show "initializeStorage env (stop m) =
        loginToMEFS env (m\<lparr>svc := (svc m)\<lparr>mefsConfig := Some cfg\<rparr>\<rparr>)"
    if "runtime (svc m) = Some rt \<and> validateStorageClientConfig env rt = Inr cfg"
    using that by (simp add: initializeStorage_def stop_def)
  show "svc (snd (uploadFile env m buffer filename publicFile key)) = svc m"
    if "mefsConfig (svc m) = Some c \<and> truthy (accessToken (svc m))"
    using that call_with_token_keeps_service(1) by blast
  show "svc (snd (retrieveFile env m cid rkey)) = svc m"
    if "mefsConfig (svc m) = Some c \<and> truthy (accessToken (svc m))"
    using that call_with_token_keeps_service(2) by blast
qed (simp_all add: stop_def uploadFile_def retrieveFile_def)

theorem stop_clears_configuration_only_witness:
  "runtime (svc demo_ready) = Some demo_runtime \<and>
   validateStorageClientConfig demo_env demo_runtime = Inr demo_config \<and>
   mefsConfig (svc demo_stale) = Some demo_config \<and> truthy (accessToken (svc demo_stale)) \<and>
   accessToken (svc (stop demo_ready)) = Some ''tok1'' \<and>
   fst (initializeStorage demo_env (stop demo_ready)) = Inr () \<and>
   map fst (new_exchanges (stop demo_ready) (snd (initializeStorage demo_env (stop demo_ready)))) =
     [challengeRequest demo_config, loginRequest demo_config ''sign-this-xyz'' ''0xsigned''] \<and>
   svc (snd (uploadFile demo_env demo_stale ''HI'' ''hi.txt'' False None)) = svc demo_stale"
  using stop_clears_configuration_only [of demo_ready demo_env "''HI''" "''hi.txt''" False None
      "''bafyNO''" None demo_runtime demo_config demo_config]
    stop_clears_configuration_only [of demo_stale demo_env "''HI''" "''hi.txt''" False None
      "''bafyNO''" None demo_runtime demo_config demo_config]
    demo_validates
  by (simp add: service_defs demo_defs)

text \<open>
  The claim as stated fails: both tokens are still held after \<open>stop\<close>, and after an
  upload that the remote rejected with status 401.
\<close>

theorem tokens_survive_counterexample:
  "accessToken (svc (stop demo_ready)) = Some ''tok1'' \<and>
   refreshToken (svc (stop demo_ready)) = Some ''ref1'' \<and>
   fst (uploadFile demo_env demo_stale ''HI'' ''hi.txt'' False None) =
     Inl (Error ''Failed to upload file: 401 unauthorized'') \<and>
   accessToken (svc (snd (uploadFile demo_env demo_stale ''HI'' ''hi.txt'' False None))) =
     Some ''old'' \<and>
   refreshToken (svc (snd (uploadFile demo_env demo_stale ''HI'' ''hi.txt'' False None))) =
     Some ''ref1''"
  by (simp add: service_defs demo_defs)

section \<open>Upload followed by retrieval\<close>






section \<open>The batch of the retrieve action\<close>










section \<open>Upload without attachments\<close>

lemma uploadResponses_no_text:
  "\<forall>r \<in> set rs. \<not> truthy (mem_text r) \<Longrightarrow> uploadResponses env rs m acc = (Inr acc, m)"
  by (induction rs) simp_all

lemma upload_guard_iff:
  "fst (uploadHandler env cb available m0 msg rs) =
     Inr (failure ''STORAGE_UPLOAD''
            ''Looks like you didn't attach any files. Please attach a file and try again.''
            ''No file to upload'')
   \<longleftrightarrow> mem_attachments msg = Some []"
  by (auto simp: uploadHandler_def failure_def uploadFailure_def uploadReply_def uploadCaught_def
           split: prod.splits sum.splits error.splits option.splits)

text \<open>
  Claim C10, as amended. If the message has no \<open>attachments\<close> field and no response
  has a text, then, provided the storage service is available, \<open>initializeStorage\<close>
  succeeds and the callback, if any, rejects neither the progress message nor the
  text of the result, the upload action uploads nothing (the machine is the one
  \<open>initializeStorage\<close> left) and returns \<open>success: true\<close> with an empty list of
  CIDs. The guard for a missing file fires exactly when \<open>attachments\<close> is present
  and empty; a callback that rejects the progress message makes the handler reject.
\<close>

theorem upload_without_attachments:
  assumes "mem_attachments message = None"
    and "\<forall>r \<in> set (case responses of None \<Rightarrow> [] | Some rs \<Rightarrow> rs). \<not> truthy (mem_text r)"
    and "initializeStorage env m = (Inr (), m1)"
    and "awaitCallback callback ''OK! Uploading file(s) to MEFS...'' = None"
    and "awaitCallback callback
           (''File(s) uploaded to MEFS successfully!'' @ newline @ newline @
            ''File CIDs:'' @ newline) = None"
  shows "uploadHandler env callback True m message responses =
           (Inr \<lparr>success = True,
                 res_text = ''File(s) uploaded to MEFS successfully!'' @ newline @ newline @
                            ''File CIDs:'' @ newline,
                 data_actions = [''STORAGE_UPLOAD''], values_error = None,
                 values_retrievedFiles = None, values_cidList = Some []\<rparr>, m1) \<and>
         (\<forall>cb available m0 msg rs.
            fst (uploadHandler env cb available m0 msg rs) =
              Inr (failure ''STORAGE_UPLOAD''
                     ''Looks like you didn't attach any files. Please attach a file and try again.''
                     ''No file to upload'')
            \<longleftrightarrow> mem_attachments msg = Some []) \<and>
         (\<forall>cb available m0 msg rs e.
            mem_attachments msg \<noteq> Some [] \<and>
            awaitCallback cb ''OK! Uploading file(s) to MEFS...'' = Some e \<longrightarrow>
            uploadHandler env cb available m0 msg rs = (Inl e, m0))"
proof (intro conjI)
  from assms show "uploadHandler env callback True m message responses =
           (Inr \<lparr>success = True,
                 res_text = ''File(s) uploaded to MEFS successfully!'' @ newline @ newline @
                            ''File CIDs:'' @ newline,
                 data_actions = [''STORAGE_UPLOAD''], values_error = None,
                 values_retrievedFiles = None, values_cidList = Some []\<rparr>, m1)"
    by (simp add: uploadHandler_def uploadReply_def uploadResponses_no_text joinCids_def)
  show "\<forall>cb available m0 msg rs.
            fst (uploadHandler env cb available m0 msg rs) =
              Inr (failure ''STORAGE_UPLOAD''
                     ''Looks like you didn't attach any files. Please attach a file and try again.''
                     ''No file to upload'')
            \<longleftrightarrow> mem_attachments msg = Some []"
    using upload_guard_iff by blast
  show "\<forall>cb available m0 msg rs e.
            mem_attachments msg \<noteq> Some [] \<and>
            awaitCallback cb ''OK! Uploading file(s) to MEFS...'' = Some e \<longrightarrow>
            uploadHandler env cb available m0 msg rs = (Inl e, m0)"
    by (simp add: uploadHandler_def)
qed

theorem upload_without_attachments_witness:
  "mem_attachments demo_message = None \<and>
   \<not> truthy (mem_text (demo_message\<lparr>mem_text := Some []\<rparr>)) \<and>
   initializeStorage demo_env demo_ready = (Inr (), demo_ready) \<and>
   awaitCallback (Some demo_failing_send) ''OK! Uploading file(s) to MEFS...'' = None \<and>
   uploadHandler demo_env None True demo_ready demo_message
       (Some [demo_message\<lparr>mem_text := Some []\<rparr>]) =
     (Inr \<lparr>success = True,
           res_text = ''File(s) uploaded to MEFS successfully!'' @ newline @ newline @
                      ''File CIDs:'' @ newline,
           data_actions = [''STORAGE_UPLOAD''], values_error = None,
           values_retrievedFiles = None, values_cidList = Some []\<rparr>, demo_ready)"
  using upload_without_attachments [of demo_message
      "Some [demo_message\<lparr>mem_text := Some []\<rparr>]" demo_env demo_ready demo_ready None,
      THEN conjunct1]
  by (simp add: service_defs demo_defs awaitCallback_def)

text \<open>
  The claim as stated fails when the storage service is not available, when
  \<open>initializeStorage\<close> fails, and when the callback rejects: the action then returns
  \<open>success: false\<close>, or no result at all.
\<close>

theorem upload_without_service_counterexample:
  "mem_attachments demo_message = None \<and>
   fst (uploadHandler demo_env None False demo_fresh demo_message None) =
     Inr \<lparr>success = False,
          res_text = ''I'm sorry, the Storage service is not available. Please try again later.'',
          data_actions = [''STORAGE_UPLOAD''],
          values_error = Some ''Storage service not available in runtime'',
          values_retrievedFiles = None, values_cidList = None\<rparr> \<and>
   (case fst (uploadHandler demo_env None True demo_misconfigured demo_message None) of
      Inl e \<Rightarrow> False | Inr res \<Rightarrow> \<not> success res) \<and>
   fst (uploadHandler demo_env (Some demo_failing_send) True demo_ready demo_message None) =
     Inr \<lparr>success = False,
          res_text = ''Sorry, failed to upload file(s) to MEFS. Please try again later.'',
          data_actions = [''STORAGE_UPLOAD''], values_error = Some ''send failed'',
          values_retrievedFiles = None, values_cidList = None\<rparr> \<and>
   fst (uploadHandler demo_env (Some demo_no_send) True demo_ready demo_message None) =
     Inl (Error ''channel closed'')"
  by (simp add: service_defs demo_defs uploadHandler_def failure_def uploadFailure_def
        uploadReply_def uploadCaught_def awaitCallback_def joinCids_def newline_def
        validateStorageClientConfig_def schema_issues_def or_default_def match_exactly_iff
        in_hex_classes is_hex_def)

end
